theory Spec2Isabelle
  imports Complex_Main "HOL-Library.AList"
begin

section \<open>Data model (src/core/storage.js, src/core/cache.js)\<close>

text \<open>
  Modelling conventions.
  \<^item> Text is an ASCII \<open>string\<close>, so that the UTF-16 length (\<open>s.length\<close>) and the UTF-8
    byte length (\<open>Buffer.byteLength(s, 'utf8')\<close>) of a text are both \<open>length s\<close>.
  \<^item> A JavaScript object used as a dictionary is the association list of its own
    properties. Reading \<open>obj[key]\<close> also finds the properties the object inherits from
    \<open>Object.prototype\<close> (\<open>constructor\<close>, \<open>__proto__\<close> and the others): \<open>entry_property\<close> for
    the stored entries, \<open>get_property\<close> for the objects of the similarity module.
  \<^item> A date is its number of milliseconds since the epoch; an ISO string that is absent or
    does not parse (an invalid \<open>Date\<close>) is \<open>None\<close>.
  \<^item> Counters are mathematical integers, and the finite numbers of the similarity module
    are real numbers next to \<open>NaN\<close> and the two infinities: rounding error, overflow to
    \<open>Infinity\<close> and loss of precision of IEEE doubles are not modelled.
  \<^item> File writes succeed; the size of the file on disk (\<open>cacheSize\<close>) is not modelled.
\<close>

record entry =
  prompt :: string
  response :: string
  model :: string
  created :: "int option"
  hits :: int
  tokens :: int
  expires :: "int option"
  tags :: "string list option"

record stats =
  totalEntries :: int
  totalHits :: int
  totalSaved :: int
  costSaved :: "(string \<times> real) list"

record meta =
  backend :: string
  meta_created :: int

record data =
  entries :: "(string \<times> entry) list"
  stats :: stats
  meta :: meta

text \<open>The file \<open>index.json\<close>: missing, present with a content that does not parse as
  JSON, or holding a document.\<close>

datatype index_file = Missing | Unreadable | Document data

definition BACKENDS_JSON :: string where "BACKENDS_JSON = ''json''"
definition BACKENDS_SQLITE :: string where "BACKENDS_SQLITE = ''sqlite''"
definition BACKENDS_REDIS :: string where "BACKENDS_REDIS = ''redis''"

section \<open>parseInt and dates\<close>

text \<open>\<open>parseInt(s)\<close> with no radix: leading white space is skipped, a sign is read, a
  \<open>0x\<close> prefix selects base 16, and the longest prefix of digits is the value; \<open>None\<close> is
  \<open>NaN\<close> (no digit at all).\<close>

definition is_js_space :: "char \<Rightarrow> bool" where
  "is_js_space c = (c \<in> set [CHR 0x09, CHR 0x0A, CHR 0x0B, CHR 0x0C, CHR 0x0D, CHR '' ''])"

definition is_digit :: "char \<Rightarrow> bool" where
  "is_digit c = (c \<in> set ''0123456789'')"

definition is_hex_digit :: "char \<Rightarrow> bool" where
  "is_hex_digit c = (c \<in> set ''0123456789abcdefABCDEF'')"

definition digit_value :: "char \<Rightarrow> nat" where
  "digit_value c =
     (if is_digit c then of_char c - 48
      else if c \<in> set ''abcdef'' then of_char c - 87
      else of_char c - 55)"

fun digits_value :: "nat \<Rightarrow> nat \<Rightarrow> string \<Rightarrow> nat" where
  "digits_value radix acc [] = acc"
| "digits_value radix acc (c # cs) = digits_value radix (acc * radix + digit_value c) cs"

definition parseInt :: "string \<Rightarrow> int option" where
  "parseInt s =
     (let t = dropWhile is_js_space s;
          neg = (take 1 t = ''-'');
          u = (if take 1 t = ''-'' \<or> take 1 t = ''+'' then drop 1 t else t);
          hex = (take 2 u = ''0x'' \<or> take 2 u = ''0X'');
          v = (if hex then drop 2 u else u);
          ds = takeWhile (if hex then is_hex_digit else is_digit) v
      in if ds = [] then None
         else Some ((if neg then - 1 else 1) * int (digits_value (if hex then 16 else 10) 0 ds)))"

text \<open>\<open>cutoff = new Date(); cutoff.setDate(cutoff.getDate() - days)\<close>: the date \<open>days\<close>
  calendar days before \<open>now\<close>, taken as \<open>days\<close> times 24 hours (a local time zone whose
  offset does not change in between). A \<open>NaN\<close> number of days, or a time outside the range
  of \<open>Date\<close>, gives an invalid date.\<close>

definition cutoff_date :: "int \<Rightarrow> int option \<Rightarrow> int option" where
  "cutoff_date now days =
     (case days of
        None \<Rightarrow> None
      | Some n \<Rightarrow> (let t = now - n * 86400000
                   in if \<bar>t\<bar> \<le> 8640000000000000 then Some t else None))"

text \<open>\<open>a < b\<close> on two dates: false as soon as one of them is invalid.\<close>

definition date_less :: "int option \<Rightarrow> int option \<Rightarrow> bool" where
  "date_less a b = (case a of None \<Rightarrow> False | Some x \<Rightarrow> (case b of None \<Rightarrow> False | Some y \<Rightarrow> x < y))"

section \<open>The object \<open>data.entries\<close>\<close>

text \<open>
  \<open>data.entries\<close> is an object that \<open>JSON.parse\<close> has built: the list of its own
  properties, in the order in which JavaScript enumerates them (for \<open>Object.entries\<close>,
  \<open>Object.keys\<close> and \<open>JSON.stringify\<close>), which is the keys that are array indices first,
  in ascending order, then the other keys in the order of their creation. Its values are
  entries. It inherits from \<open>Object.prototype\<close>.
\<close>

text \<open>The names of the properties of \<open>Object.prototype\<close>: functions, and the accessor
  \<open>__proto__\<close>, which gives the prototype object.\<close>

definition object_prototype_names :: "string list" where
  "object_prototype_names =
     [''constructor'', ''__proto__'', ''__defineGetter__'', ''__defineSetter__'',
      ''__lookupGetter__'', ''__lookupSetter__'', ''hasOwnProperty'', ''isPrototypeOf'',
      ''propertyIsEnumerable'', ''toLocaleString'', ''toString'', ''valueOf'']"

text \<open>An array index: the decimal writing, without a leading zero, of a number up to
  4294967294 (it has at most 10 digits).\<close>

definition is_array_index :: "string \<Rightarrow> bool" where
  "is_array_index k =
     (k \<noteq> [] \<and> length k \<le> 10 \<and> list_all is_digit k \<and> (k = ''0'' \<or> hd k \<noteq> CHR ''0'')
      \<and> digits_value 10 0 k \<le> 4294967294)"

text \<open>What \<open>data.entries[hash]\<close> gives: nothing (\<open>undefined\<close>, which \<open>|| null\<close> turns into
  \<open>null\<close>), the entry stored under the hash, or, for a name of \<open>Object.prototype\<close> under
  which no entry is stored, what the object inherits. All but the first are truthy.\<close>

datatype lookup = Nothing | Found entry | Inherited

definition entry_property :: "(string \<times> entry) list \<Rightarrow> string \<Rightarrow> lookup" where
  "entry_property es k =
     (case map_of es k of
        Some e \<Rightarrow> Found e
      | None \<Rightarrow> if k \<in> set object_prototype_names then Inherited else Nothing)"

text \<open>\<open>data.entries[hash] = entry\<close>. An own property is overwritten where it is. Otherwise
  the key \<open>__proto__\<close> reaches the inherited setter, which makes the entry the prototype of
  \<open>data.entries\<close> and creates no property (the functions below do not read
  \<open>data.entries[...]\<close> after such an assignment, and \<open>Object.keys\<close> and
  \<open>JSON.stringify\<close> see own properties only); any other key becomes a new own property,
  enumerated among the array indices when it is one, and last when it is not.\<close>

fun insert_index :: "string \<Rightarrow> entry \<Rightarrow> (string \<times> entry) list \<Rightarrow> (string \<times> entry) list" where
  "insert_index k v [] = [(k, v)]"
| "insert_index k v ((k', v') # es) =
     (if is_array_index k' \<and> digits_value 10 0 k' < digits_value 10 0 k
      then (k', v') # insert_index k v es
      else (k, v) # (k', v') # es)"

definition assign_entry :: "(string \<times> entry) list \<Rightarrow> string \<Rightarrow> entry \<Rightarrow> (string \<times> entry) list" where
  "assign_entry es k v =
     (if map_of es k \<noteq> None then AList.update k v es
      else if k = ''__proto__'' then es
      else if is_array_index k then insert_index k v es
      else es @ [(k, v)])"

section \<open>JSONStorage\<close>

definition empty_stats :: stats where
  "empty_stats = \<lparr>totalEntries = 0, totalHits = 0, totalSaved = 0, costSaved = []\<rparr>"

definition load :: "index_file \<Rightarrow> data option" where
  "load f = (case f of Document d \<Rightarrow> Some d | _ \<Rightarrow> None)"

definition save :: "data \<Rightarrow> index_file" where
  "save d = Document d"

text \<open>\<open>init\<close> writes the empty document when there is no \<open>index.json\<close>, and leaves an
  existing file as it is.\<close>

definition json_init :: "int \<Rightarrow> index_file \<Rightarrow> index_file" where
  "json_init now f =
     (case f of
        Missing \<Rightarrow> save \<lparr>entries = [], stats = empty_stats,
                          meta = \<lparr>backend = BACKENDS_JSON, meta_created = now\<rparr>\<rparr>
      | _ \<Rightarrow> f)"

text \<open>\<open>get\<close> returns \<open>null\<close> when the store does not load, and \<open>data.entries[hash] || null\<close>
  otherwise.\<close>

definition json_get :: "string \<Rightarrow> index_file \<Rightarrow> lookup" where
  "json_get h f = (case load f of None \<Rightarrow> Nothing | Some d \<Rightarrow> entry_property (entries d) h)"

text \<open>The objects \<open>set\<close> returns: \<open>{success: false, error}\<close> and
  \<open>{success: true, isNew}\<close>.\<close>

datatype set_result = Set_failed string | Set_ok bool

definition json_set :: "string \<Rightarrow> entry \<Rightarrow> index_file \<Rightarrow> set_result \<times> index_file" where
  "json_set h e f =
     (case load f of
        None \<Rightarrow> (Set_failed ''Storage not initialized'', f)
      | Some d \<Rightarrow>
          (let isNew = (entry_property (entries d) h = Nothing);
               d1 = d\<lparr>entries := assign_entry (entries d) h e\<rparr>;
               d2 = (if isNew
                     then d1\<lparr>stats := (stats d1)\<lparr>totalEntries := totalEntries (stats d1) + 1\<rparr>\<rparr>
                     else d1)
           in (Set_ok isNew, save d2)))"

text \<open>\<open>delete\<close> tests \<open>data.entries[hash]\<close>; \<open>delete data.entries[hash]\<close> removes an own
  property and does nothing when there is none.\<close>

definition json_delete :: "string \<Rightarrow> index_file \<Rightarrow> bool \<times> index_file" where
  "json_delete h f =
     (case load f of
        None \<Rightarrow> (False, f)
      | Some d \<Rightarrow>
          (if entry_property (entries d) h \<noteq> Nothing
           then (True, save (d\<lparr>entries := AList.delete h (entries d),
                                 stats := (stats d)\<lparr>totalEntries := totalEntries (stats d) - 1\<rparr>\<rparr>))
           else (False, f)))"

definition json_list :: "index_file \<Rightarrow> (string \<times> entry) list" where
  "json_list f = (case load f of None \<Rightarrow> [] | Some d \<Rightarrow> entries d)"

definition json_getStats :: "index_file \<Rightarrow> stats option" where
  "json_getStats f = (case load f of None \<Rightarrow> None | Some d \<Rightarrow> Some (stats d))"

record stats_updates =
  upd_totalEntries :: "int option"
  upd_totalHits :: "int option"
  upd_totalSaved :: "int option"

definition assign_stats :: "stats \<Rightarrow> stats_updates \<Rightarrow> stats" where
  "assign_stats s u =
     s\<lparr>totalEntries := (case upd_totalEntries u of None \<Rightarrow> totalEntries s | Some v \<Rightarrow> v),
       totalHits := (case upd_totalHits u of None \<Rightarrow> totalHits s | Some v \<Rightarrow> v),
       totalSaved := (case upd_totalSaved u of None \<Rightarrow> totalSaved s | Some v \<Rightarrow> v)\<rparr>"

definition json_updateStats :: "stats_updates \<Rightarrow> index_file \<Rightarrow> index_file" where
  "json_updateStats u f =
     (case load f of
        None \<Rightarrow> f
      | Some d \<Rightarrow> save (d\<lparr>stats := assign_stats (stats d) u\<rparr>))"

subsection \<open>clear, exportData, importData\<close>

text \<open>The loop of \<open>clear\<close> over \<open>Object.entries(data.entries)\<close> (a copy taken before the
  loop), deleting from \<open>data.entries\<close> and counting.\<close>

fun clear_loop :: "int option \<Rightarrow> (string \<times> entry) list \<Rightarrow> (string \<times> entry) list \<times> int
    \<Rightarrow> (string \<times> entry) list \<times> int" where
  "clear_loop cutoff [] acc = acc"
| "clear_loop cutoff ((h, e) # rest) (ents, removed) =
     (if date_less (created e) cutoff
      then clear_loop cutoff rest (AList.delete h ents, removed + 1)
      else clear_loop cutoff rest (ents, removed))"

record clear_result =
  clear_success :: bool
  removed :: int

text \<open>\<open>olderThan\<close> is \<open>options.olderThan\<close>: \<open>None\<close> when absent; the empty string is falsy
  too.\<close>

definition json_clear :: "string option \<Rightarrow> int \<Rightarrow> index_file \<Rightarrow> clear_result \<times> index_file" where
  "json_clear olderThan now f =
     (case load f of
        None \<Rightarrow> (\<lparr>clear_success = False, removed = 0\<rparr>, f)
      | Some d \<Rightarrow>
          (if olderThan \<noteq> None \<and> olderThan \<noteq> Some []
           then
             (let days = parseInt (the olderThan);
                  cutoff = cutoff_date now days;
                  (ents, n) = clear_loop cutoff (entries d) (entries d, 0);
                  d' = d\<lparr>entries := ents,
                         stats := (stats d)\<lparr>totalEntries := totalEntries (stats d) - n\<rparr>\<rparr>
              in (\<lparr>clear_success = True, removed = n\<rparr>, save d'))
           else
             (let n = int (length (entries d));
                  d' = d\<lparr>entries := [], stats := empty_stats\<rparr>
              in (\<lparr>clear_success = True, removed = n\<rparr>, save d'))))"

definition exportData :: "index_file \<Rightarrow> data option" where
  "exportData f = load f"

text \<open>The argument of \<open>importData\<close> is any parsed JSON value: \<open>None\<close> is \<open>null\<close> (what
  \<open>exportData\<close> returns on a store that does not load), and each field of the object may be
  missing. A document read by \<open>load\<close> is such a value with every field present.\<close>

record imported_data =
  imp_entries :: "(string \<times> entry) list option"
  imp_stats :: "stats option"
  imp_meta :: "meta option"

definition as_imported :: "data option \<Rightarrow> imported_data option" where
  "as_imported x =
     (case x of
        None \<Rightarrow> None
      | Some d \<Rightarrow> Some \<lparr>imp_entries = Some (entries d), imp_stats = Some (stats d),
                        imp_meta = Some (meta d)\<rparr>)"

datatype js_error = TypeError string | RangeError string | Error string

text \<open>The loop of \<open>importData\<close> over \<open>Object.entries(importedData.entries || {})\<close>, with
  its three tests of \<open>data.entries[hash]\<close>.\<close>

fun import_loop :: "string \<Rightarrow> (string \<times> entry) list \<Rightarrow> (string \<times> entry) list \<times> int
    \<Rightarrow> (string \<times> entry) list \<times> int" where
  "import_loop strategy [] acc = acc"
| "import_loop strategy ((h, e) # rest) (ents, imported) =
     (if strategy = ''skip-existing'' \<and> entry_property ents h \<noteq> Nothing
      then import_loop strategy rest (ents, imported)
      else if strategy = ''replace'' \<or> entry_property ents h = Nothing
      then import_loop strategy rest (assign_entry ents h e, imported + 1)
      else if strategy = ''merge'' \<and> entry_property ents h = Nothing
      then import_loop strategy rest (assign_entry ents h e, imported + 1)
      else import_loop strategy rest (ents, imported))"

record import_result =
  import_success :: bool
  imported :: int

definition importData :: "imported_data option \<Rightarrow> string \<Rightarrow> index_file
    \<Rightarrow> js_error + (import_result \<times> index_file)" where
  "importData importedData strategy f =
     (case load f of
        None \<Rightarrow> Inr (\<lparr>import_success = False, imported = 0\<rparr>, f)
      | Some d \<Rightarrow>
          (case importedData of
             None \<Rightarrow> Inl (TypeError ''Cannot read properties of null (reading 'entries')'')
           | Some x \<Rightarrow>
               (let incoming = (case imp_entries x of None \<Rightarrow> [] | Some es \<Rightarrow> es);
                    (ents, n) = import_loop strategy incoming (entries d, 0);
                    d' = d\<lparr>entries := ents,
                           stats := (stats d)\<lparr>totalEntries := int (length ents)\<rparr>\<rparr>
                in Inr (\<lparr>import_success = True, imported = n\<rparr>, save d'))))"

section \<open>Backend factory and resolver (src/core/storage.js)\<close>

text \<open>A storage instance as \<open>createStorage\<close> returns it. The SQLite instance is only built
  (\<open>db = null\<close>): nothing but \<open>SQLiteStorage.init\<close> opens the database, and the cache
  facade never calls it on the instance it gets from \<open>getStorage\<close>.\<close>

datatype storage = JSONStorage | SQLiteStorage

definition createStorage :: "string \<Rightarrow> js_error + storage" where
  "createStorage b =
     (if b = BACKENDS_SQLITE then Inr SQLiteStorage
      else if b = BACKENDS_REDIS then Inl (Error ''Redis backend not yet implemented'')
      else Inr JSONStorage)"

text \<open>The cache directory: whether it exists, whether it holds \<open>cache.db\<close>, and its file
  \<open>index.json\<close>.\<close>

record cache_dir =
  dir_exists :: bool
  cache_db :: bool
  index_json :: index_file

definition detectBackend :: "cache_dir \<Rightarrow> string" where
  "detectBackend c = (if cache_db c then BACKENDS_SQLITE else BACKENDS_JSON)"

subsection \<open>The storage instance of the facade\<close>

text \<open>The methods the facade calls, dispatched on the instance. On the SQLite instance
  every method takes its \<open>!this.db\<close> branch, and there is no \<open>updateStats\<close>.\<close>

definition storage_getStats :: "storage \<Rightarrow> cache_dir \<Rightarrow> stats option" where
  "storage_getStats st c =
     (case st of JSONStorage \<Rightarrow> json_getStats (index_json c) | SQLiteStorage \<Rightarrow> None)"

definition storage_get :: "storage \<Rightarrow> string \<Rightarrow> cache_dir \<Rightarrow> lookup" where
  "storage_get st h c =
     (case st of JSONStorage \<Rightarrow> json_get h (index_json c) | SQLiteStorage \<Rightarrow> Nothing)"

definition storage_set :: "storage \<Rightarrow> string \<Rightarrow> entry \<Rightarrow> cache_dir \<Rightarrow> set_result \<times> cache_dir" where
  "storage_set st h e c =
     (case st of
        JSONStorage \<Rightarrow> (let (r, f) = json_set h e (index_json c) in (r, c\<lparr>index_json := f\<rparr>))
      | SQLiteStorage \<Rightarrow> (Set_failed ''Database not initialized'', c))"

definition storage_delete :: "storage \<Rightarrow> string \<Rightarrow> cache_dir \<Rightarrow> bool \<times> cache_dir" where
  "storage_delete st h c =
     (case st of
        JSONStorage \<Rightarrow> (let (r, f) = json_delete h (index_json c) in (r, c\<lparr>index_json := f\<rparr>))
      | SQLiteStorage \<Rightarrow> (False, c))"

definition storage_updateStats :: "storage \<Rightarrow> stats_updates \<Rightarrow> cache_dir \<Rightarrow> cache_dir" where
  "storage_updateStats st u c =
     (case st of
        JSONStorage \<Rightarrow> c\<lparr>index_json := json_updateStats u (index_json c)\<rparr>
      | SQLiteStorage \<Rightarrow> c)"

section \<open>Usage limits (license/limits, license/constants)\<close>

text \<open>\<open>isPro()\<close> reads the license file; it is the parameter \<open>pro\<close> of every function
  that calls it.\<close>

definition maxEntries :: int where "maxEntries = 50"
definition maxResponseSize :: int where "maxResponseSize = 10 * 1024"

fun show_nat :: "nat \<Rightarrow> string" where
  "show_nat n =
     (if n < 10 then [''0123456789'' ! n]
      else show_nat (n div 10) @ [''0123456789'' ! (n mod 10)])"

declare show_nat.simps [simp del]

text \<open>\<open>Math.round(x / 1024)\<close> for a byte count \<open>x \<ge> 0\<close>.\<close>

definition round_kb :: "int \<Rightarrow> int" where
  "round_kb x = (2 * x + 1024) div 2048"

datatype check = Allowed | Denied string

definition canAddEntry :: "bool \<Rightarrow> int \<Rightarrow> check" where
  "canAddEntry pro currentCount =
     (if pro then Allowed
      else if currentCount \<ge> maxEntries
      then Denied (''FREE version limited to '' @ show_nat (nat maxEntries) @ '' cache entries'')
      else Allowed)"

definition checkResponseSize :: "bool \<Rightarrow> int \<Rightarrow> check" where
  "checkResponseSize pro sz =
     (if pro then Allowed
      else if sz > maxResponseSize
      then Denied (''FREE version limited to '' @ show_nat (nat (round_kb maxResponseSize))
                   @ ''KB responses (found '' @ show_nat (nat (round_kb sz)) @ ''KB)'')
      else Allowed)"

section \<open>Cache facade (src/core/cache.js)\<close>

text \<open>SHA-256 is the parameter \<open>sha256\<close>: the digest of a text, 256 bits read as a
  number. \<open>digest('hex')\<close> writes it with 64 hexadecimal digits, and \<open>substring(0, 12)\<close>
  keeps the first 12.\<close>

definition hex_digest :: "nat \<Rightarrow> string" where
  "hex_digest n = map (\<lambda>i. ''0123456789abcdef'' ! ((n div 16 ^ (63 - i)) mod 16)) [0..<64]"

definition hashPrompt :: "(string \<Rightarrow> nat) \<Rightarrow> string \<Rightarrow> string \<Rightarrow> string" where
  "hashPrompt sha256 p m = take 12 (hex_digest (sha256 (m @ '':'' @ p)))"

text \<open>The cache path is resolved outside the model: \<open>getStorage\<close> is given the directory.\<close>

definition getStorage :: "cache_dir \<Rightarrow> (js_error + storage) option" where
  "getStorage c = (if \<not> dir_exists c then None else Some (createStorage (detectBackend c)))"

definition parseTTL :: "string \<Rightarrow> int option" where
  "parseTTL ttl =
     (if ttl \<noteq> [] \<and> butlast ttl \<noteq> [] \<and> list_all is_digit (butlast ttl) \<and> last ttl \<in> set ''dhms''
      then
        (case parseInt (butlast ttl) of
           None \<Rightarrow> None
         | Some v \<Rightarrow>
             Some (if last ttl = CHR ''d'' then v * 86400000
                   else if last ttl = CHR ''h'' then v * 3600000
                   else if last ttl = CHR ''m'' then v * 60000
                   else v * 1000))
      else None)"

record set_options =
  opt_tokens :: "int option"
  opt_ttl :: "string option"
  opt_tags :: "string list option"

text \<open>The objects \<open>set\<close> returns: \<open>{success: false, message}\<close>,
  \<open>{success: false, message, limitExceeded: true}\<close>, \<open>{success: true, hash, isNew, tokens}\<close>,
  and the failure of \<open>storage.set\<close> passed on.\<close>

datatype cache_set_result =
    Not_initialized string
  | Limit_exceeded string
  | Stored string bool int
  | Storage_failed string

text \<open>\<open>Math.ceil(n / 4)\<close> for a length \<open>n\<close>.\<close>

definition ceil_quarter :: "nat \<Rightarrow> int" where
  "ceil_quarter n = int ((n + 3) div 4)"

text \<open>\<open>options.tokens || Math.ceil(response.length / 4)\<close>\<close>

definition token_count :: "set_options \<Rightarrow> string \<Rightarrow> int" where
  "token_count options r =
     (case opt_tokens options of
        None \<Rightarrow> ceil_quarter (length r)
      | Some t \<Rightarrow> if t = 0 then ceil_quarter (length r) else t)"

definition cache_set :: "(string \<Rightarrow> nat) \<Rightarrow> bool \<Rightarrow> int \<Rightarrow> string \<Rightarrow> string \<Rightarrow> string
    \<Rightarrow> set_options \<Rightarrow> cache_dir \<Rightarrow> js_error + (cache_set_result \<times> cache_dir)" where
  "cache_set sha256 pro now p r m options c =
     (case getStorage c of
        None \<Rightarrow> Inr (Not_initialized ''Cache not initialized. Run: llmcache init'', c)
      | Some (Inl err) \<Rightarrow> Inl err
      | Some (Inr storage) \<Rightarrow>
          (case storage_getStats storage c of
             None \<Rightarrow> Inl (TypeError ''Cannot read properties of null (reading 'totalEntries')'')
           | Some s \<Rightarrow>
               (case canAddEntry pro (totalEntries s) of
                  Denied msg \<Rightarrow> Inr (Limit_exceeded msg, c)
                | Allowed \<Rightarrow>
                    (case checkResponseSize pro (int (length r)) of
                       Denied msg \<Rightarrow> Inr (Limit_exceeded msg, c)
                     | Allowed \<Rightarrow>
                         (let hash = hashPrompt sha256 p m;
                              tok = token_count options r;
                              ttlMs = (case opt_ttl options of
                                         None \<Rightarrow> None
                                       | Some ttl \<Rightarrow> if ttl \<noteq> [] \<and> pro then parseTTL ttl else None);
                              exp = (case ttlMs of
                                       None \<Rightarrow> None
                                     | Some ms \<Rightarrow> if ms = 0 then None else Some (now + ms));
                              tgs = (if pro then opt_tags options else None);
                              e = \<lparr>prompt = p, response = r, model = m, created = Some now,
                                   hits = 0, tokens = tok, expires = exp, tags = tgs\<rparr>
                          in if (case exp of None \<Rightarrow> False | Some t \<Rightarrow> \<bar>t\<bar> > 8640000000000000)
                             then Inl (RangeError ''Invalid time value'')
                             else
                               (case storage_set storage hash e c of
                                  (Set_ok isNew, c') \<Rightarrow> Inr (Stored hash isNew tok, c')
                                | (Set_failed msg, c') \<Rightarrow> Inr (Storage_failed msg, c')))))))"

record get_result =
  res_response :: string
  res_model :: string
  res_hits :: int
  res_created :: "int option"
  res_tokens :: int

text \<open>\<open>get\<close>. When \<open>storage.get\<close> returns what \<open>data.entries\<close> inherits, a function or
  \<open>Object.prototype\<close>, that value has no \<open>expires\<close> and no \<open>response\<close>: it is given back to
  \<open>storage.set\<close>, which writes the document again as it was (\<open>JSON.stringify\<close> skips such a
  value), and \<open>Buffer.byteLength(entry.response, 'utf8')\<close> throws a \<open>TypeError\<close> (its code is
  \<open>ERR_INVALID_ARG_TYPE\<close>).\<close>

definition cache_get :: "(string \<Rightarrow> nat) \<Rightarrow> int \<Rightarrow> string \<Rightarrow> string \<Rightarrow> cache_dir
    \<Rightarrow> js_error + (get_result option \<times> cache_dir)" where
  "cache_get sha256 now p m c =
     (case getStorage c of
        None \<Rightarrow> Inr (None, c)
      | Some (Inl err) \<Rightarrow> Inl err
      | Some (Inr storage) \<Rightarrow>
          (let hash = hashPrompt sha256 p m
           in case storage_get storage hash c of
                Nothing \<Rightarrow> Inr (None, c)
              | Inherited \<Rightarrow>
                  Inl (TypeError ''ERR_INVALID_ARG_TYPE'')
              | Found entry \<Rightarrow>
                  (if expires entry \<noteq> None \<and> date_less (expires entry) (Some now)
                   then Inr (None, snd (storage_delete storage hash c))
                   else
                     (let e = entry\<lparr>hits := hits entry + 1\<rparr>;
                          c1 = snd (storage_set storage hash e c)
                      in case storage_getStats storage c1 of
                           None \<Rightarrow> Inl (TypeError ''Cannot read properties of null (reading 'totalHits')'')
                         | Some s \<Rightarrow>
                             (let c2 = storage_updateStats storage
                                         \<lparr>upd_totalEntries = None,
                                          upd_totalHits = Some (totalHits s + 1),
                                          upd_totalSaved = Some (totalSaved s + int (length (response e)))\<rparr>
                                         c1
                              in Inr (Some \<lparr>res_response = response e, res_model = model e,
                                            res_hits = hits e, res_created = created e,
                                            res_tokens = tokens e\<rparr>, c2))))))"

section \<open>Similarity search (src/core/similarity.js)\<close>

subsection \<open>Tokens\<close>

definition toLowerCase :: "string \<Rightarrow> string" where
  "toLowerCase s =
     map (\<lambda>c. if c \<in> set ''ABCDEFGHIJKLMNOPQRSTUVWXYZ'' then char_of (of_char c + (32::nat)) else c) s"

definition is_word_char :: "char \<Rightarrow> bool" where
  "is_word_char c =
     (c \<in> set ''abcdefghijklmnopqrstuvwxyzABCDEFGHIJKLMNOPQRSTUVWXYZ0123456789_'')"

text \<open>\<open>replace(/[^\w\s]/g, ' ')\<close>\<close>

definition replace_non_word :: "string \<Rightarrow> string" where
  "replace_non_word s = map (\<lambda>c. if is_word_char c \<or> is_js_space c then c else CHR '' '') s"

text \<open>\<open>split(/\s+/)\<close>: the pieces between the runs of white space, with an empty piece
  before a leading run and after a trailing one.\<close>

fun split_ws :: "string \<Rightarrow> string list" where
  "split_ws [] = [[]]"
| "split_ws (c # cs) =
     (if is_js_space c
      then (if cs \<noteq> [] \<and> is_js_space (hd cs) then split_ws cs else [] # split_ws cs)
      else (case split_ws cs of [] \<Rightarrow> [[c]] | w # ws \<Rightarrow> (c # w) # ws))"

definition tokenize :: "string \<Rightarrow> string list" where
  "tokenize text = filter (\<lambda>w. length w > 2) (split_ws (replace_non_word (toLowerCase text)))"

subsection \<open>JavaScript numbers and objects\<close>

text \<open>The value of a JavaScript expression of type number. Arithmetic on finite numbers is
  exact in this model (no rounding, no overflow, one zero); the operations below follow
  IEEE 754 on \<open>NaN\<close> and the infinities.\<close>

datatype js_number = Num real | PlusInfinity | MinusInfinity | NaN

fun js_add :: "js_number \<Rightarrow> js_number \<Rightarrow> js_number" where
  "js_add (Num a) (Num b) = Num (a + b)"
| "js_add NaN _ = NaN"
| "js_add _ NaN = NaN"
| "js_add PlusInfinity MinusInfinity = NaN"
| "js_add MinusInfinity PlusInfinity = NaN"
| "js_add PlusInfinity _ = PlusInfinity"
| "js_add _ PlusInfinity = PlusInfinity"
| "js_add MinusInfinity _ = MinusInfinity"
| "js_add _ MinusInfinity = MinusInfinity"

fun js_mul :: "js_number \<Rightarrow> js_number \<Rightarrow> js_number" where
  "js_mul (Num a) (Num b) = Num (a * b)"
| "js_mul NaN _ = NaN"
| "js_mul _ NaN = NaN"
| "js_mul PlusInfinity (Num b) =
     (if b = 0 then NaN else if b > 0 then PlusInfinity else MinusInfinity)"
| "js_mul MinusInfinity (Num b) =
     (if b = 0 then NaN else if b > 0 then MinusInfinity else PlusInfinity)"
| "js_mul (Num a) PlusInfinity =
     (if a = 0 then NaN else if a > 0 then PlusInfinity else MinusInfinity)"
| "js_mul (Num a) MinusInfinity =
     (if a = 0 then NaN else if a > 0 then MinusInfinity else PlusInfinity)"
| "js_mul PlusInfinity PlusInfinity = PlusInfinity"
| "js_mul MinusInfinity MinusInfinity = PlusInfinity"
| "js_mul PlusInfinity MinusInfinity = MinusInfinity"
| "js_mul MinusInfinity PlusInfinity = MinusInfinity"

fun js_div :: "js_number \<Rightarrow> js_number \<Rightarrow> js_number" where
  "js_div (Num a) (Num b) =
     (if b \<noteq> 0 then Num (a / b)
      else if a = 0 then NaN
      else if a > 0 then PlusInfinity
      else MinusInfinity)"
| "js_div NaN _ = NaN"
| "js_div _ NaN = NaN"
| "js_div (Num a) _ = Num 0"
| "js_div PlusInfinity (Num b) = (if b \<ge> 0 then PlusInfinity else MinusInfinity)"
| "js_div MinusInfinity (Num b) = (if b \<ge> 0 then MinusInfinity else PlusInfinity)"
| "js_div _ _ = NaN"

text \<open>\<open>Math.sqrt\<close> and \<open>Math.log\<close>\<close>

fun js_sqrt :: "js_number \<Rightarrow> js_number" where
  "js_sqrt (Num x) = (if x < 0 then NaN else Num (sqrt x))"
| "js_sqrt PlusInfinity = PlusInfinity"
| "js_sqrt MinusInfinity = NaN"
| "js_sqrt NaN = NaN"

fun js_log :: "js_number \<Rightarrow> js_number" where
  "js_log (Num x) = (if x < 0 then NaN else if x = 0 then MinusInfinity else Num (ln x))"
| "js_log PlusInfinity = PlusInfinity"
| "js_log MinusInfinity = NaN"
| "js_log NaN = NaN"

text \<open>What the objects of this module hold or give when read: nothing (\<open>undefined\<close>), a
  number, or a value of another kind, which here is a function, an object, or a string that
  does not read as a number. Such a value is truthy, is \<open>NaN\<close> when used as a number, and
  gives a string again when \<open>1\<close> is added to it.\<close>

datatype js_value = Undefined | Number js_number | Other

text \<open>An object created by \<open>{}\<close> is the list of its own properties, in insertion order
  (JavaScript enumerates the keys that are array indices, such as the token \<open>123\<close>, before
  the others; the loops below only build objects and sums from what they enumerate, and
  neither depends on the order). It
  inherits from \<open>Object.prototype\<close>: reading one of the names \<open>object_prototype_names\<close>,
  when the object has no own property of that name, gives a function (for \<open>__proto__\<close>, the
  prototype object).\<close>

type_synonym js_object = "(string \<times> js_value) list"

text \<open>\<open>obj[key]\<close>\<close>

definition get_property :: "js_object \<Rightarrow> string \<Rightarrow> js_value" where
  "get_property obj k =
     (case map_of obj k of
        Some v \<Rightarrow> v
      | None \<Rightarrow> if k \<in> set object_prototype_names then Other else Undefined)"

text \<open>\<open>obj[key] = v\<close>, for a value \<open>v\<close> that is a number or a string: it creates or
  overwrites the own property, except for the key \<open>__proto__\<close>, whose inherited setter
  ignores such a value.\<close>

definition set_property :: "js_object \<Rightarrow> string \<Rightarrow> js_value \<Rightarrow> js_object" where
  "set_property obj k v = (if k = ''__proto__'' then obj else AList.update k v obj)"

text \<open>\<open>x || 0\<close>, \<open>x + 1\<close>, and \<open>x\<close> used as a number\<close>

fun or_zero :: "js_value \<Rightarrow> js_value" where
  "or_zero Undefined = Number (Num 0)"
| "or_zero (Number n) = (if n = Num 0 \<or> n = NaN then Number (Num 0) else Number n)"
| "or_zero Other = Other"

fun plus_one :: "js_value \<Rightarrow> js_value" where
  "plus_one Undefined = Number NaN"
| "plus_one (Number n) = Number (js_add n (Num 1))"
| "plus_one Other = Other"

fun to_number :: "js_value \<Rightarrow> js_number" where
  "to_number Undefined = NaN"
| "to_number (Number n) = n"
| "to_number Other = NaN"

subsection \<open>TF-IDF vectors\<close>

text \<open>The loop \<open>tf[token] = (tf[token] || 0) + 1\<close>.\<close>

fun count_tokens :: "string list \<Rightarrow> js_object \<Rightarrow> js_object" where
  "count_tokens [] tf = tf"
| "count_tokens (t # ts) tf =
     count_tokens ts (set_property tf t (plus_one (or_zero (get_property tf t))))"

text \<open>The loop \<open>for (const token in tf) tf[token] = tf[token] / total\<close> overwrites each own
  property.\<close>

definition termFrequency :: "string list \<Rightarrow> js_object" where
  "termFrequency toks =
     map (\<lambda>(t, v). (t, Number (js_div (to_number v) (Num (real (length toks))))))
       (count_tokens toks [])"

text \<open>\<open>new Set(xs)\<close>, iterated: the elements of \<open>xs\<close> in the order of their first
  occurrence.\<close>

definition js_set_of :: "'a list \<Rightarrow> 'a list" where
  "js_set_of xs = rev (remdups (rev xs))"

fun doc_counts :: "string list list \<Rightarrow> js_object \<Rightarrow> js_object" where
  "doc_counts [] dc = dc"
| "doc_counts (doc # docs) dc = doc_counts docs (count_tokens (js_set_of doc) dc)"

text \<open>The loop \<open>for (const token in docCounts) idf[token] = Math.log(numDocs / docCounts[token])\<close>
  fills the new object \<open>idf\<close>.\<close>

fun idf_loop :: "real \<Rightarrow> js_object \<Rightarrow> js_object \<Rightarrow> js_object" where
  "idf_loop numDocs [] idf = idf"
| "idf_loop numDocs ((t, v) # rest) idf =
     idf_loop numDocs rest
       (set_property idf t (Number (js_log (js_div (Num numDocs) (to_number v)))))"

definition inverseDocumentFrequency :: "string list list \<Rightarrow> js_object" where
  "inverseDocumentFrequency documents =
     idf_loop (real (length documents)) (doc_counts documents []) []"

text \<open>The loop \<open>for (const token in tf) vector[token] = tf[token] * (idf[token] || 0)\<close>.\<close>

fun tfidf_loop :: "js_object \<Rightarrow> js_object \<Rightarrow> js_object \<Rightarrow> js_object" where
  "tfidf_loop idf [] vector = vector"
| "tfidf_loop idf ((t, v) # rest) vector =
     tfidf_loop idf rest
       (set_property vector t
          (Number (js_mul (to_number v) (to_number (or_zero (get_property idf t))))))"

definition tfidfVector :: "js_object \<Rightarrow> js_object \<Rightarrow> js_object" where
  "tfidfVector tf idf = tfidf_loop idf tf []"

subsection \<open>Cosine similarity\<close>

text \<open>\<open>v[key] || 0\<close>, as the number the products use\<close>

definition value_or_zero :: "js_object \<Rightarrow> string \<Rightarrow> js_number" where
  "value_or_zero v k = to_number (or_zero (get_property v k))"

fun cosine_loop :: "js_object \<Rightarrow> js_object \<Rightarrow> string list
    \<Rightarrow> js_number \<times> js_number \<times> js_number \<Rightarrow> js_number \<times> js_number \<times> js_number" where
  "cosine_loop v1 v2 [] acc = acc"
| "cosine_loop v1 v2 (k # ks) (dotProduct, mag1, mag2) =
     (let val1 = value_or_zero v1 k;
          val2 = value_or_zero v2 k
      in cosine_loop v1 v2 ks
           (js_add dotProduct (js_mul val1 val2),
            js_add mag1 (js_mul val1 val1),
            js_add mag2 (js_mul val2 val2)))"

definition cosineSimilarity :: "js_object \<Rightarrow> js_object \<Rightarrow> js_number" where
  "cosineSimilarity v1 v2 =
     (let allKeys = js_set_of (map fst v1 @ map fst v2);
          (dotProduct, m1, m2) = cosine_loop v1 v2 allKeys (Num 0, Num 0, Num 0);
          mag1 = js_sqrt m1;
          mag2 = js_sqrt m2
      in if mag1 = Num 0 \<or> mag2 = Num 0 then Num 0
         else js_div dotProduct (js_mul mag1 mag2))"

subsection \<open>findSimilar\<close>














section \<open>Sequences of mutating operations on the JSON backend\<close>

datatype mutation =
    Op_set string entry
  | Op_delete string
  | Op_clear "string option" int
  | Op_import "imported_data option" string

text \<open>One mutating call on the store; a call that throws writes nothing.\<close>

fun apply_mutation :: "mutation \<Rightarrow> index_file \<Rightarrow> index_file" where
  "apply_mutation (Op_set h e) f = snd (json_set h e f)"
| "apply_mutation (Op_delete h) f = snd (json_delete h f)"
| "apply_mutation (Op_clear olderThan now) f = snd (json_clear olderThan now f)"
| "apply_mutation (Op_import x strategy) f =
     (case importData x strategy f of Inl err \<Rightarrow> f | Inr (r, f') \<Rightarrow> f')"

definition run_mutations :: "mutation list \<Rightarrow> index_file \<Rightarrow> index_file" where
  "run_mutations ms f = fold apply_mutation ms f"

text \<open>The counter agrees with the keys: the keys are distinct, as those of an object are,
  and \<open>totalEntries\<close> is their number.\<close>

definition counted :: "index_file \<Rightarrow> bool" where
  "counted f = (case load f of None \<Rightarrow> False
     | Some d \<Rightarrow> distinct (map fst (entries d)) \<and> totalEntries (stats d) = int (length (entries d)))"

section \<open>Notions used to state the properties\<close>

text \<open>An entry is older than a cutoff when its creation date is valid and before it.\<close>

definition is_old :: "int \<Rightarrow> string \<times> entry \<Rightarrow> bool" where
  "is_old cutoff p = (case created (snd p) of None \<Rightarrow> False | Some t \<Rightarrow> t < cutoff)"

text \<open>The object whose own properties are the given numbers, and the L2 norm of these
  numbers as the specification defines it: the square root of the sum of their squares.\<close>

definition numbers :: "(string \<times> real) list \<Rightarrow> js_object" where
  "numbers a = map (\<lambda>(k, x). (k, Number (Num x))) a"

definition l2_norm :: "(string \<times> real) list \<Rightarrow> real" where
  "l2_norm a = sqrt (\<Sum>x\<leftarrow>map snd a. x * x)"


text \<open>What \<open>findSimilar\<close> computes for one entry, before rounding.\<close>

definition idf_of :: "string \<Rightarrow> (string \<times> entry) list \<Rightarrow> js_object" where
  "idf_of query es = inverseDocumentFrequency (map (\<lambda>(h, e). tokenize (prompt e)) es @ [tokenize query])"

definition raw_similarity :: "string \<Rightarrow> (string \<times> entry) list \<Rightarrow> entry \<Rightarrow> js_number" where
  "raw_similarity query es e =
     cosineSimilarity (tfidfVector (termFrequency (tokenize query)) (idf_of query es))
                      (tfidfVector (termFrequency (tokenize (prompt e))) (idf_of query es))"








text \<open>A call of \<open>set\<close> or \<open>delete\<close> whose key is not a name of \<open>Object.prototype\<close>.\<close>

fun plain_mutation :: "mutation \<Rightarrow> bool" where
  "plain_mutation (Op_set h e) = (h \<notin> set object_prototype_names)"
| "plain_mutation (Op_delete h) = (h \<notin> set object_prototype_names)"
| "plain_mutation (Op_clear olderThan now) = True"
| "plain_mutation (Op_import x strategy) = True"

section \<open>Example data\<close>

text \<open>An entry, and a freshly initialized store.\<close>

definition sample_entry :: "string \<Rightarrow> string \<Rightarrow> entry" where
  "sample_entry p r =
     \<lparr>prompt = p, response = r, model = ''gpt-4'', created = Some 1000, hits = 0,
      tokens = 1, expires = None, tags = None\<rparr>"

definition fresh_index :: index_file where
  "fresh_index = json_init 0 Missing"

text \<open>A store with one entry created at time 1000, read once (one hit, 13 bytes saved).\<close>

definition used_data :: data where
  "used_data =
     \<lparr>entries = [(''0123456789ab'',
                  \<lparr>prompt = ''test prompt'', response = ''test response'', model = ''gpt-4'',
                   created = Some 1000, hits = 1, tokens = 4, expires = None, tags = None\<rparr>)],
      stats = \<lparr>totalEntries = 1, totalHits = 1, totalSaved = 13, costSaved = []\<rparr>,
      meta = \<lparr>backend = ''json'', meta_created = 0\<rparr>\<rparr>"

definition used_index :: index_file where
  "used_index = Document used_data"

text \<open>A store with one entry, under the key \<open>constructor\<close>.\<close>

definition inherited_key_store :: index_file where
  "inherited_key_store =
     Document \<lparr>entries = [(''constructor'', sample_entry ''test prompt'' ''test response'')],
               stats = \<lparr>totalEntries = 1, totalHits = 0, totalSaved = 0, costSaved = []\<rparr>,
               meta = \<lparr>backend = ''json'', meta_created = 0\<rparr>\<rparr>"

text \<open>Cache directories: with \<open>cache.db\<close>, with \<open>index.json\<close> only, with neither.\<close>

definition sqlite_dir :: cache_dir where
  "sqlite_dir = \<lparr>dir_exists = True, cache_db = True, index_json = fresh_index\<rparr>"

definition json_dir :: cache_dir where
  "json_dir = \<lparr>dir_exists = True, cache_db = False, index_json = fresh_index\<rparr>"

definition bare_dir :: cache_dir where
  "bare_dir = \<lparr>dir_exists = True, cache_db = False, index_json = Missing\<rparr>"

definition no_options :: set_options where
  "no_options = \<lparr>opt_tokens = None, opt_ttl = None, opt_tags = None\<rparr>"

text \<open>A stand-in for SHA-256 in the examples: every text has the same digest.\<close>

definition constant_digest :: "string \<Rightarrow> nat" where
  "constant_digest s = 0x0123456789abcdef0123456789abcdef0123456789abcdef0123456789abcdef"

text \<open>A cache directory whose store holds \<open>n\<close> entries, under the keys \<open>k0\<close>, \<open>k1\<close>,
  and so on.\<close>

definition numbered_entries :: "nat \<Rightarrow> (string \<times> entry) list" where
  "numbered_entries n = map (\<lambda>i. (CHR ''k'' # show_nat i, sample_entry ''p'' ''r'')) [0..<n]"

definition store_data :: "nat \<Rightarrow> data" where
  "store_data n =
     \<lparr>entries = numbered_entries n,
      stats = \<lparr>totalEntries = int n, totalHits = 0, totalSaved = 0, costSaved = []\<rparr>,
      meta = \<lparr>backend = ''json'', meta_created = 0\<rparr>\<rparr>"

definition store_with :: "nat \<Rightarrow> cache_dir" where
  "store_with n = \<lparr>dir_exists = True, cache_db = False, index_json = Document (store_data n)\<rparr>"

definition used_dir :: cache_dir where
  "used_dir = \<lparr>dir_exists = True, cache_db = False, index_json = used_index\<rparr>"

text \<open>Four entries to search with the query \<open>cat\<close>. Every token occurs in three of the
  five documents, so every inverse document frequency is \<open>ln (5 / 3)\<close>; the first entry
  has similarity \<open>10 / sqrt 101\<close> (about 0.995), the second one 1, the two others 0.\<close>

definition pet_entry :: "string \<Rightarrow> entry" where
  "pet_entry p = \<lparr>prompt = p, response = ''ok'', model = ''default'', created = Some 1000,
                  hits = 0, tokens = 1, expires = None, tags = None\<rparr>"



section \<open>Properties of the object \<open>data.entries\<close>\<close>

lemma load_simps [simp]:
  "load Missing = None" "load Unreadable = None" "load (Document d) = Some d"
  by (simp_all add: load_def)

lemma load_eq_Some [simp]: "(load f = Some d) = (f = Document d)"
  by (cases f) simp_all

lemma entry_property_Nothing:
  "(entry_property es k = Nothing) = (map_of es k = None \<and> k \<notin> set object_prototype_names)"
  by (simp add: entry_property_def split: option.splits)

lemma entry_property_Found: "(entry_property es k = Found e) = (map_of es k = Some e)"
  by (simp add: entry_property_def split: option.splits)

lemma update_absent: "map_of al h = None \<Longrightarrow> AList.update h e al = al @ [(h, e)]"
  by (induction al) (auto split: if_splits)

lemma map_of_insert_index:
  "map_of es k = None \<Longrightarrow> map_of (insert_index k v es) = (map_of es)(k \<mapsto> v)"
proof (induction es)
  case Nil
  then show ?case by simp
next
  case (Cons p es)
  obtain k' v' where p: "p = (k', v')" by (cases p)
  with Cons.prems have ne: "k' \<noteq> k" and rest: "map_of es k = None"
    by (auto split: if_splits)
  show ?case
    using Cons.IH [OF rest] ne by (auto simp: p fun_upd_twist)
qed

lemma keys_insert_index: "fst ` set (insert_index k v es) = insert k (fst ` set es)"
  by (induction k v es rule: insert_index.induct) (simp_all add: insert_commute)

lemma length_insert_index: "length (insert_index k v es) = Suc (length es)"
  by (induction es) auto

lemma distinct_insert_index:
  "distinct (map fst es) \<Longrightarrow> k \<notin> fst ` set es \<Longrightarrow> distinct (map fst (insert_index k v es))"
proof (induction es)
  case Nil
  then show ?case by simp
next
  case (Cons p es)
  obtain k' v' where p: "p = (k', v')" by (cases p)
  from Cons.prems p have "distinct (map fst (insert_index k v es))"
    by (intro Cons.IH) auto
  with Cons.prems p show ?case
    by (auto simp: keys_insert_index)
qed

lemma map_of_append_absent:
  "map_of es k = None \<Longrightarrow> [k \<mapsto> v] ++ map_of es = (map_of es)(k \<mapsto> v)"
  by (auto simp: fun_eq_iff map_add_def split: option.splits)

lemma map_of_assign_entry:
  "map_of (assign_entry es k v) =
     (if map_of es k = None \<and> k = ''__proto__'' then map_of es else (map_of es)(k \<mapsto> v))"
proof (cases "map_of es k")
  case None
  then show ?thesis
    by (simp add: assign_entry_def map_of_insert_index map_of_append_absent)
next
  case (Some e)
  then show ?thesis
    by (simp add: assign_entry_def update_conv')
qed

lemma distinct_assign_entry:
  assumes "distinct (map fst es)"
  shows "distinct (map fst (assign_entry es k v))"
proof (cases "map_of es k")
  case None
  then have "k \<notin> fst ` set es"
    by (simp add: map_of_eq_None_iff)
  with assms None show ?thesis
    by (simp add: assign_entry_def distinct_insert_index)
next
  case (Some e)
  with assms show ?thesis
    by (simp add: assign_entry_def distinct_update)
qed

lemma length_update_entry:
  "length (AList.update h e al) = (if map_of al h = None then length al + 1 else length al)"
  by (induction al) auto

lemma length_assign_entry:
  "length (assign_entry es k v) =
     (if map_of es k = None \<and> k \<noteq> ''__proto__'' then length es + 1 else length es)"
  by (auto simp: assign_entry_def length_update_entry length_insert_index)

lemma keys_update_present:
  "map_of al h \<noteq> None \<Longrightarrow> map fst (AList.update h e al) = map fst al"
  by (induction al) auto

lemma assign_entry_update:
  assumes "k \<notin> set object_prototype_names" and "\<not> is_array_index k"
  shows "assign_entry es k v = AList.update k v es"
proof -
  from assms(1) have "k \<noteq> ''__proto__''"
    by (auto simp: object_prototype_names_def)
  with assms(2) show ?thesis
    by (auto simp: assign_entry_def update_absent)
qed

text \<open>A key of 12 characters, as \<open>hashPrompt\<close> returns, is neither a name of
  \<open>Object.prototype\<close> nor an array index.\<close>

lemma digest_plain: "length k = 12 \<Longrightarrow> k \<notin> set object_prototype_names"
  by (auto simp: object_prototype_names_def)

lemma digest_not_index: "length k = 12 \<Longrightarrow> \<not> is_array_index k"
  by (simp add: is_array_index_def)

lemma map_of_assign_digest:
  assumes "length k = 12"
  shows "map_of (assign_entry es k v) = (map_of es)(k \<mapsto> v)"
proof -
  from assms have "k \<noteq> ''__proto__''" by auto
  then show ?thesis by (simp add: map_of_assign_entry)
qed

lemma hashPrompt_length: "length (hashPrompt sha p m) = 12"
  by (simp add: hashPrompt_def hex_digest_def)

section \<open>Properties of JSONStorage.set\<close>

text \<open>Under a key that is not a name of \<open>Object.prototype\<close>, \<open>set\<close> on an initialized
  store stores the entry and returns \<open>isNew\<close> as the absence of the key: an existing entry
  is replaced at its place and \<open>totalEntries\<close> stays, a new key is added (last, unless it is
  an array index) and \<open>totalEntries\<close> grows by 1.\<close>

lemma json_set_plain_key:
  assumes "load f = Some d" and "h \<notin> set object_prototype_names"
  shows "\<exists>d'. json_set h e f = (Set_ok (map_of (entries d) h = None), Document d')
           \<and> map_of (entries d') h = Some e
           \<and> (\<forall>k. k \<noteq> h \<longrightarrow> map_of (entries d') k = map_of (entries d) k)
           \<and> (map_of (entries d) h \<noteq> None \<longrightarrow>
                 totalEntries (stats d') = totalEntries (stats d)
               \<and> map fst (entries d') = map fst (entries d))
           \<and> (map_of (entries d) h = None \<longrightarrow>
                 totalEntries (stats d') = totalEntries (stats d) + 1
               \<and> length (entries d') = length (entries d) + 1
               \<and> (\<not> is_array_index h \<longrightarrow> map fst (entries d') = map fst (entries d) @ [h]))"
proof -
  from assms(2) have np: "h \<noteq> ''__proto__''"
    by (auto simp: object_prototype_names_def)
  have new: "(entry_property (entries d) h = Nothing) = (map_of (entries d) h = None)"
    using assms(2) by (simp add: entry_property_Nothing)
  have keys_old: "map fst (assign_entry (entries d) h e) = map fst (entries d)"
    if "map_of (entries d) h \<noteq> None"
    using that by (simp add: assign_entry_def keys_update_present)
  have keys_new: "map fst (assign_entry (entries d) h e) = map fst (entries d) @ [h]"
    if "map_of (entries d) h = None" "\<not> is_array_index h"
    using that np by (simp add: assign_entry_def)
  show ?thesis
    using assms(1) np keys_old keys_new
    by (auto simp: json_set_def save_def Let_def new map_of_assign_entry length_assign_entry)
qed

text \<open>
  Claim C2. On an initialized JSON backend, \<open>set(h, entry)\<close> is to return \<open>isNew = true\<close>
  when no entry with hash \<open>h\<close> exists, \<open>totalEntries\<close> then growing by exactly 1. The code
  at \<open>set('constructor', entry)\<close> on a freshly initialized store, which holds no entry: it
  returns \<open>isNew = false\<close> and stores the entry, and \<open>totalEntries\<close> stays 0. The test
  \<open>!data.entries[hash]\<close> reads the function that the empty object inherits from
  \<open>Object.prototype\<close>.
\<close>

theorem json_set_inherited_key:
  "json_list fresh_index = []
   \<and> json_set ''constructor'' (sample_entry ''test prompt'' ''test response'') fresh_index
     = (Set_ok False,
        Document \<lparr>entries = [(''constructor'', sample_entry ''test prompt'' ''test response'')],
                  stats = \<lparr>totalEntries = 0, totalHits = 0, totalSaved = 0, costSaved = []\<rparr>,
                  meta = \<lparr>backend = ''json'', meta_created = 0\<rparr>\<rparr>)"
  by (simp add: json_list_def json_set_def fresh_index_def json_init_def save_def empty_stats_def
      BACKENDS_JSON_def entry_property_def assign_entry_def object_prototype_names_def
      is_array_index_def is_digit_def Let_def)

section \<open>Properties of JSONStorage.clear\<close>

lemma clear_loop_filter:
  "clear_loop c xs (ents, r) =
     (filter (\<lambda>p. \<forall>x \<in> set xs. date_less (created (snd x)) c \<longrightarrow> fst x \<noteq> fst p) ents,
      r + int (length (filter (\<lambda>x. date_less (created (snd x)) c) xs)))"
proof (induction xs arbitrary: ents r)
  case Nil
  then show ?case by simp
next
  case (Cons x xs)
  obtain h e where x: "x = (h, e)" by (cases x)
  show ?case
  proof (cases "date_less (created e) c")
    case True
    have "filter (\<lambda>p. \<forall>y \<in> set xs. date_less (created (snd y)) c \<longrightarrow> fst y \<noteq> fst p) (AList.delete h ents)
        = filter (\<lambda>p. \<forall>y \<in> set (x # xs). date_less (created (snd y)) c \<longrightarrow> fst y \<noteq> fst p) ents"
      using True x by (simp add: AList.delete_eq case_prod_unfold)
    with True x Cons.IH [of "AList.delete h ents" "r + 1"] show ?thesis by simp
  next
    case False
    with x Cons.IH [of ents r] show ?thesis by simp
  qed
qed

lemma filter_old_keys:
  assumes "distinct (map fst ents)"
  shows "filter (\<lambda>p. \<forall>x \<in> set ents. P (snd x) \<longrightarrow> fst x \<noteq> fst p) ents = filter (\<lambda>p. \<not> P (snd p)) ents"
proof (rule filter_cong [OF refl])
  fix p assume p: "p \<in> set ents"
  have "x = p" if "x \<in> set ents" "fst x = fst p" for x
    using assms that p by (metis eq_key_imp_eq_value prod.collapse)
  then show "(\<forall>x \<in> set ents. P (snd x) \<longrightarrow> fst x \<noteq> fst p) = (\<not> P (snd p))"
    using p by auto
qed

lemma clear_loop_distinct:
  assumes "distinct (map fst ents)"
  shows "clear_loop c ents (ents, 0) =
     (filter (\<lambda>p. \<not> date_less (created (snd p)) c) ents,
      int (length (filter (\<lambda>p. date_less (created (snd p)) c) ents)))"
  using filter_old_keys [OF assms, of "\<lambda>e. date_less (created e) c"]
  by (simp add: clear_loop_filter)

text \<open>
  Claim C6, as amended. On an initialized store (the entries being a JavaScript object, their
  keys are distinct), \<open>clear()\<close> with no filter removes every entry, returns the prior
  number of entries as \<open>removed\<close> and resets the statistics, \<open>totalEntries\<close> to 0.
  \<open>clear({olderThan: s})\<close>, where \<open>s\<close> reads as \<open>n\<close> days, removes exactly the entries
  created before \<open>now\<close> minus \<open>n\<close> days, keeps every other entry as it is and in place,
  returns the number of deleted entries as \<open>removed\<close>, and subtracts that number from
  \<open>totalEntries\<close>; the other statistics (\<open>totalHits\<close>, \<open>totalSaved\<close>, \<open>costSaved\<close>)
  stay as they were.
\<close>

theorem json_clear_removes:
  assumes "load f = Some d" and "distinct (map fst (entries d))"
  shows "json_clear None now f =
           (\<lparr>clear_success = True, removed = int (length (entries d))\<rparr>,
            Document (d\<lparr>entries := [], stats := empty_stats\<rparr>))
       \<and> totalEntries empty_stats = 0
       \<and> (s \<noteq> [] \<and> parseInt s = Some n \<and> \<bar>now - n * 86400000\<bar> \<le> 8640000000000000 \<longrightarrow>
            json_clear (Some s) now f =
              (\<lparr>clear_success = True,
                removed = int (length (filter (is_old (now - n * 86400000)) (entries d)))\<rparr>,
               Document (d\<lparr>entries := filter (\<lambda>p. \<not> is_old (now - n * 86400000) p) (entries d),
                       stats := (stats d)\<lparr>totalEntries := totalEntries (stats d)
                          - int (length (filter (is_old (now - n * 86400000)) (entries d)))\<rparr>\<rparr>)))"
proof -
  have old: "date_less (created (snd p)) (Some t) = is_old t p" for p t
    by (simp add: date_less_def is_old_def split: option.splits)
  have all: "json_clear None now f =
           (\<lparr>clear_success = True, removed = int (length (entries d))\<rparr>,
            Document (d\<lparr>entries := [], stats := empty_stats\<rparr>))"
    using assms(1) by (simp add: json_clear_def save_def Let_def)
  have zero: "totalEntries empty_stats = 0"
    by (simp add: empty_stats_def)
  have some: "json_clear (Some s) now f =
              (\<lparr>clear_success = True,
                removed = int (length (filter (is_old (now - n * 86400000)) (entries d)))\<rparr>,
               Document (d\<lparr>entries := filter (\<lambda>p. \<not> is_old (now - n * 86400000) p) (entries d),
                       stats := (stats d)\<lparr>totalEntries := totalEntries (stats d)
                          - int (length (filter (is_old (now - n * 86400000)) (entries d)))\<rparr>\<rparr>))"
    if "s \<noteq> []" "parseInt s = Some n" "\<bar>now - n * 86400000\<bar> \<le> 8640000000000000"
    using assms(1) that clear_loop_distinct [OF assms(2), of "Some (now - n * 86400000)"]
    by (simp add: json_clear_def save_def cutoff_date_def Let_def old)
  from all zero some show ?thesis by blast
qed

lemma parseInt_30: "parseInt ''30d'' = Some 30"
  by (simp add: parseInt_def is_js_space_def is_digit_def digit_value_def Let_def)

theorem json_clear_removes_witness:
  "load used_index = Some used_data \<and> distinct (map fst (entries used_data))
   \<and> removed (fst (json_clear None 4000000000 used_index)) = 1
   \<and> parseInt ''30d'' = Some 30
   \<and> removed (fst (json_clear (Some ''30d'') 4000000000 used_index)) = 1
   \<and> snd (json_clear (Some ''30d'') 4000000000 used_index)
       = Document (used_data\<lparr>entries := [], stats := (stats used_data)\<lparr>totalEntries := 0\<rparr>\<rparr>)"
proof -
  have l: "load used_index = Some used_data"
    by (simp add: used_index_def)
  have d: "distinct (map fst (entries used_data))"
    by (simp add: used_data_def)
  from json_clear_removes [OF l d, of 4000000000 "''30d''" 30] parseInt_30 l d
  show ?thesis
    by (simp add: used_data_def is_old_def)
qed

text \<open>
  The claim as stated has the filtered \<open>clear\<close> reset the aggregate statistics in proportion
  to what it removes. In the store above the only entry is older than 30 days at time
  4000000000: the filtered \<open>clear\<close> removes every entry, as the unfiltered one does, and
  still leaves \<open>totalHits = 1\<close> and \<open>totalSaved = 13\<close> where the unfiltered one resets
  both to 0.
\<close>

theorem json_clear_keeps_hit_stats:
  "json_clear (Some ''30d'') 4000000000 used_index =
     (\<lparr>clear_success = True, removed = 1\<rparr>,
      Document \<lparr>entries = [],
                stats = \<lparr>totalEntries = 0, totalHits = 1, totalSaved = 13, costSaved = []\<rparr>,
                meta = \<lparr>backend = ''json'', meta_created = 0\<rparr>\<rparr>)
   \<and> json_clear None 4000000000 used_index =
     (\<lparr>clear_success = True, removed = 1\<rparr>,
      Document \<lparr>entries = [],
                stats = \<lparr>totalEntries = 0, totalHits = 0, totalSaved = 0, costSaved = []\<rparr>,
                meta = \<lparr>backend = ''json'', meta_created = 0\<rparr>\<rparr>)"
  by (simp add: json_clear_def used_index_def used_data_def save_def parseInt_30 cutoff_date_def
      date_less_def empty_stats_def Let_def)

section \<open>Properties of JSONStorage.importData\<close>

lemma import_loop_insert_absent:
  assumes "strategy = ''merge'' \<or> strategy = ''skip-existing''" and "distinct (map fst xs)"
    and "\<forall>k \<in> fst ` set xs. k \<notin> set object_prototype_names \<and> \<not> is_array_index k"
  shows "import_loop strategy xs (ents, n) =
           (ents @ filter (\<lambda>p. map_of ents (fst p) = None) xs,
            n + int (length (filter (\<lambda>p. map_of ents (fst p) = None) xs)))"
  using assms(2,3)
proof (induction xs arbitrary: ents n)
  case Nil
  then show ?case by simp
next
  case (Cons x xs)
  obtain h e where x: "x = (h, e)" by (cases x)
  from Cons.prems x have fresh: "h \<notin> fst ` set xs" and dist: "distinct (map fst xs)"
    and plain: "h \<notin> set object_prototype_names" "\<not> is_array_index h"
    and rest: "\<forall>k \<in> fst ` set xs. k \<notin> set object_prototype_names \<and> \<not> is_array_index k"
    by auto
  have new: "(entry_property ents h = Nothing) = (map_of ents h = None)"
    using plain(1) by (simp add: entry_property_Nothing)
  have step: "import_loop strategy ((h, e) # xs) (ents, n) =
      (if map_of ents h = None then import_loop strategy xs (AList.update h e ents, n + 1)
       else import_loop strategy xs (ents, n))"
    using assms(1) by (elim disjE) (simp_all add: new assign_entry_update [OF plain])
  show ?case
  proof (cases "map_of ents h = None")
    case True
    have "filter (\<lambda>p. map_of (ents @ [(h, e)]) (fst p) = None) xs
        = filter (\<lambda>p. map_of ents (fst p) = None) xs"
      using fresh by (intro filter_cong) (auto simp: map_add_def split: option.splits)
    with True x Cons.IH [OF dist rest, of "ents @ [(h, e)]" "n + 1"] show ?thesis
      by (simp add: step update_absent del: import_loop.simps)
  next
    case False
    with x Cons.IH [OF dist rest, of ents n] show ?thesis
      by (auto simp add: step simp del: import_loop.simps)
  qed
qed

lemma import_loop_other_strategy:
  assumes "strategy \<noteq> ''replace''" and "strategy \<noteq> ''skip-existing''"
  shows "import_loop strategy xs acc = import_loop ''merge'' xs acc"
proof (induction xs arbitrary: acc)
  case Nil
  then show ?case by simp
next
  case (Cons x xs)
  obtain h e where x: "x = (h, e)" by (cases x)
  obtain ents n where acc: "acc = (ents, n)" by (cases acc)
  show ?case using assms Cons.IH x acc by simp
qed

lemma import_loop_distinct:
  "distinct (map fst ents) \<Longrightarrow> distinct (map fst (fst (import_loop strategy xs (ents, n))))"
proof (induction xs arbitrary: ents n)
  case Nil
  then show ?case by simp
next
  case (Cons x xs)
  obtain h e where x: "x = (h, e)" by (cases x)
  from Cons.prems have upd: "distinct (map fst (assign_entry ents h e))"
    by (rule distinct_assign_entry)
  have "import_loop strategy (x # xs) (ents, n) = import_loop strategy xs (ents, n)
      \<or> import_loop strategy (x # xs) (ents, n) = import_loop strategy xs (assign_entry ents h e, n + 1)"
    using x by simp
  then show ?case
    using Cons.IH [OF Cons.prems, of n] Cons.IH [OF upd, of "n + 1"] by auto
qed

text \<open>When no incoming key is a name of \<open>Object.prototype\<close> (nor an array index, which
  would not be enumerated last), importing a snapshot with \<open>merge\<close> or \<open>skip-existing\<close>
  inserts exactly the incoming keys that have no local entry, leaves every local entry as it
  is, and returns the number of keys inserted. Exporting such a store and importing the
  result into a freshly initialized one, with \<open>merge\<close>, imports all its entries.\<close>

lemma importData_plain_keys:
  assumes "strategy = ''merge'' \<or> strategy = ''skip-existing''"
    and "load f = Some d"
    and "distinct (map fst xs)"
    and "\<forall>k \<in> fst ` set xs. k \<notin> set object_prototype_names \<and> \<not> is_array_index k"
  shows "\<exists>d'. importData (Some \<lparr>imp_entries = Some xs, imp_stats = st, imp_meta = mt\<rparr>) strategy f
            = Inr (\<lparr>import_success = True,
                    imported = int (length (filter (\<lambda>p. map_of (entries d) (fst p) = None) xs))\<rparr>,
                   Document d')
          \<and> entries d' = entries d @ filter (\<lambda>p. map_of (entries d) (fst p) = None) xs
          \<and> (\<forall>k e. map_of (entries d) k = Some e \<longrightarrow> map_of (entries d') k = Some e)
          \<and> (\<forall>k. map_of (entries d) k = None \<longrightarrow> map_of (entries d') k = map_of xs k)"
proof -
  let ?new = "filter (\<lambda>p. map_of (entries d) (fst p) = None) xs"
  let ?d' = "d\<lparr>entries := entries d @ ?new,
               stats := (stats d)\<lparr>totalEntries := int (length (entries d @ ?new))\<rparr>\<rparr>"
  have loop: "import_loop strategy xs (entries d, 0) = (entries d @ ?new, int (length ?new))"
    using import_loop_insert_absent [OF assms(1,3,4), of "entries d" 0] by simp
  have res: "importData (Some \<lparr>imp_entries = Some xs, imp_stats = st, imp_meta = mt\<rparr>) strategy f
      = Inr (\<lparr>import_success = True, imported = int (length ?new)\<rparr>, Document ?d')"
    using assms(2) loop by (simp add: importData_def save_def)
  have new: "map_of ?new k = (if map_of (entries d) k = None then map_of xs k else None)" for k
    by (induction xs) auto
  have keep: "map_of (entries ?d') k = Some e" if "map_of (entries d) k = Some e" for k e
    using that by (simp add: map_add_def)
  have ins: "map_of (entries ?d') k = map_of xs k" if "map_of (entries d) k = None" for k
    using that by (simp add: map_add_def new split: option.splits)
  show ?thesis
    using res keep ins by (intro exI [of _ ?d']) simp
qed

lemma export_import_plain_keys:
  assumes "load S = Some dS" and "distinct (map fst (entries dS))"
    and "\<forall>k \<in> fst ` set (entries dS). k \<notin> set object_prototype_names \<and> \<not> is_array_index k"
  shows "\<exists>d'. importData (as_imported (exportData S)) ''merge'' (json_init now Missing)
               = Inr (\<lparr>import_success = True, imported = int (length (entries dS))\<rparr>, Document d')
             \<and> entries d' = entries dS"
  using assms(1) import_loop_insert_absent [OF _ assms(2,3), of "''merge''" "[]" 0]
  by (simp add: importData_def exportData_def as_imported_def json_init_def save_def)

text \<open>
  Claim C5. For every store \<open>S\<close>, importing what \<open>exportData\<close> returns on \<open>S\<close> into an
  empty initialized store, with the strategy \<open>merge\<close>, is to import exactly the number of
  entries of \<open>S\<close>. The code on the store that holds one entry, under the key
  \<open>constructor\<close> (it is what importing that entry with \<open>replace\<close> into an empty store
  builds): the export, imported with \<open>merge\<close> into an empty store, imports 0 entries and
  leaves the store empty. And a snapshot with the keys \<open>constructor\<close> and \<open>0123456789ab\<close>,
  imported with \<open>merge\<close> into an empty store, imports 1 entry: the key \<open>constructor\<close> is
  skipped although no local entry has it. The test \<open>!data.entries[hash]\<close> reads the function
  that the empty object inherits from \<open>Object.prototype\<close>.
\<close>

theorem importData_inherited_key:
  "importData (Some \<lparr>imp_entries = Some [(''constructor'', sample_entry ''test prompt'' ''test response'')],
                      imp_stats = None, imp_meta = None\<rparr>) ''replace'' fresh_index
     = Inr (\<lparr>import_success = True, imported = 1\<rparr>, inherited_key_store)
   \<and> length (json_list inherited_key_store) = 1
   \<and> json_list fresh_index = []
   \<and> importData (as_imported (exportData inherited_key_store)) ''merge'' fresh_index
     = Inr (\<lparr>import_success = True, imported = 0\<rparr>, fresh_index)
   \<and> importData (Some \<lparr>imp_entries = Some [(''constructor'', sample_entry ''new'' ''data''),
                                            (''0123456789ab'', sample_entry ''fresh'' ''data'')],
                        imp_stats = None, imp_meta = None\<rparr>) ''merge'' fresh_index
     = Inr (\<lparr>import_success = True, imported = 1\<rparr>,
            Document \<lparr>entries = [(''0123456789ab'', sample_entry ''fresh'' ''data'')],
                      stats = \<lparr>totalEntries = 1, totalHits = 0, totalSaved = 0, costSaved = []\<rparr>,
                      meta = \<lparr>backend = ''json'', meta_created = 0\<rparr>\<rparr>)"
  by (simp add: importData_def exportData_def as_imported_def json_list_def inherited_key_store_def
      fresh_index_def json_init_def save_def empty_stats_def BACKENDS_JSON_def entry_property_def
      assign_entry_def object_prototype_names_def is_array_index_def is_digit_def)

section \<open>Properties of createStorage and of the strategy of importData\<close>

text \<open>
  Claim C7, as amended. \<open>createStorage\<close> throws at construction for the identifier
  \<open>redis\<close> and for no other: every identifier that is neither \<open>sqlite\<close> nor \<open>redis\<close>,
  recognized or not, gives the JSON backend. \<open>importData\<close> never throws on account of
  the strategy (given a snapshot object it returns a result whatever the strategy is), and a
  strategy name other than \<open>replace\<close> and \<open>skip-existing\<close> is treated as \<open>merge\<close>.
\<close>

theorem createStorage_importData_validation:
  "(isl (createStorage b) \<longleftrightarrow> b = BACKENDS_REDIS)
   \<and> (b \<noteq> BACKENDS_SQLITE \<and> b \<noteq> BACKENDS_REDIS \<longrightarrow> createStorage b = Inr JSONStorage)
   \<and> \<not> isl (importData (Some x) strategy f)
   \<and> (strategy \<noteq> ''replace'' \<and> strategy \<noteq> ''skip-existing'' \<longrightarrow>
        importData y strategy f = importData y ''merge'' f)"
proof -
  have a: "isl (createStorage b) \<longleftrightarrow> b = BACKENDS_REDIS"
    by (simp add: createStorage_def BACKENDS_REDIS_def BACKENDS_SQLITE_def)
  have b: "b \<noteq> BACKENDS_SQLITE \<and> b \<noteq> BACKENDS_REDIS \<longrightarrow> createStorage b = Inr JSONStorage"
    by (simp add: createStorage_def)
  have c: "\<not> isl (importData (Some x) strategy f)"
    by (simp add: importData_def Let_def split: option.splits prod.splits)
  have d: "importData y strategy f = importData y ''merge'' f"
    if "strategy \<noteq> ''replace''" "strategy \<noteq> ''skip-existing''"
    by (simp add: importData_def import_loop_other_strategy [OF that] split: option.splits)
  from a b c d show ?thesis by blast
qed

theorem createStorage_importData_validation_witness:
  "isl (createStorage ''redis'') \<and> createStorage ''memcached'' = Inr JSONStorage
   \<and> importData (Some \<lparr>imp_entries = Some [], imp_stats = None, imp_meta = None\<rparr>) ''overwrite'' fresh_index
     = importData (Some \<lparr>imp_entries = Some [], imp_stats = None, imp_meta = None\<rparr>) ''merge'' fresh_index"
proof -
  let ?y = "Some \<lparr>imp_entries = Some [], imp_stats = None, imp_meta = None\<rparr>"
  have a: "isl (createStorage ''redis'')"
    using createStorage_importData_validation [of "''redis''" undefined "''merge''" Missing None]
    by (simp add: BACKENDS_REDIS_def)
  note inst = createStorage_importData_validation [of "''memcached''" undefined "''overwrite''"
      fresh_index ?y]
  have b: "createStorage ''memcached'' = Inr JSONStorage"
    using inst by (simp add: BACKENDS_SQLITE_def BACKENDS_REDIS_def)
  have c: "importData ?y ''overwrite'' fresh_index = importData ?y ''merge'' fresh_index"
    using inst by simp
  from a b c show ?thesis by simp
qed

text \<open>
  The claim as stated has every identifier outside the implemented set throw at construction
  and an unrecognized strategy name throw in \<open>importData\<close>. The identifier \<open>memcached\<close>
  gives a JSON backend, and the strategy \<open>overwrite\<close> imports the entry.
\<close>

theorem unknown_backend_and_strategy_accepted:
  "createStorage ''memcached'' = Inr JSONStorage
   \<and> importData (Some \<lparr>imp_entries = Some [(''0123456789ab'', sample_entry ''p'' ''r'')],
                        imp_stats = None, imp_meta = None\<rparr>) ''overwrite'' fresh_index
     = Inr (\<lparr>import_success = True, imported = 1\<rparr>,
            Document \<lparr>entries = [(''0123456789ab'', sample_entry ''p'' ''r'')],
                  stats = \<lparr>totalEntries = 1, totalHits = 0, totalSaved = 0, costSaved = []\<rparr>,
                  meta = \<lparr>backend = ''json'', meta_created = 0\<rparr>\<rparr>)"
  by (simp add: createStorage_def BACKENDS_SQLITE_def BACKENDS_REDIS_def BACKENDS_JSON_def
      importData_def fresh_index_def json_init_def save_def empty_stats_def entry_property_def
      assign_entry_def object_prototype_names_def is_array_index_def)

section \<open>Properties of detectBackend\<close>

text \<open>
  Claim C8, as amended. \<open>detectBackend\<close> returns the SQL backend when \<open>cache.db\<close> is
  present, whether \<open>index.json\<close> is there or not, and the JSON backend in every other case,
  also when neither file exists: it has no answer for an uninitialized directory. There, the
  JSON backend it names finds no document: \<open>get\<close> returns \<open>null\<close> and \<open>set\<close> fails with
  \<open>Storage not initialized\<close>, leaving the directory as it is.
\<close>

theorem detectBackend_markers:
  "(cache_db c \<longrightarrow> detectBackend c = BACKENDS_SQLITE)
   \<and> (\<not> cache_db c \<longrightarrow> detectBackend c = BACKENDS_JSON)
   \<and> (\<not> cache_db c \<and> load (index_json c) = None \<longrightarrow>
        json_get h (index_json c) = Nothing
      \<and> json_set h e (index_json c) = (Set_failed ''Storage not initialized'', index_json c))"
  by (simp add: detectBackend_def json_get_def json_set_def)

theorem detectBackend_markers_witness:
  "detectBackend sqlite_dir = ''sqlite'' \<and> detectBackend json_dir = ''json''
   \<and> json_get ''0123456789ab'' (index_json bare_dir) = Nothing"
  using detectBackend_markers [of sqlite_dir] detectBackend_markers [of json_dir]
    detectBackend_markers [of bare_dir "''0123456789ab''"]
  by (simp add: sqlite_dir_def json_dir_def bare_dir_def BACKENDS_SQLITE_def BACKENDS_JSON_def)

text \<open>
  The claim as stated has the resolver report a directory with neither marker file as
  uninitialized; it answers \<open>json\<close>, as for a directory that holds \<open>index.json\<close>.
\<close>

theorem detectBackend_no_marker:
  "detectBackend \<lparr>dir_exists = True, cache_db = False, index_json = Missing\<rparr> = ''json''"
  by (simp add: detectBackend_def BACKENDS_JSON_def)

section \<open>The entry counter of the JSON backend\<close>

lemma length_delete_present:
  "distinct (map fst al) \<Longrightarrow> map_of al h \<noteq> None \<Longrightarrow> int (length (AList.delete h al)) = int (length al) - 1"
proof (induction al)
  case Nil
  then show ?case by simp
next
  case (Cons a al)
  show ?case
  proof (cases "fst a = h")
    case True
    with Cons.prems(1) have "h \<notin> fst ` set al" by auto
    then have "AList.delete h al = al" by (induction al) auto
    with True show ?thesis by (cases a) simp
  next
    case False
    with Cons show ?thesis by (cases a) (auto split: if_splits)
  qed
qed

lemma counted_set:
  assumes "counted f" and "h \<notin> set object_prototype_names"
  shows "counted (snd (json_set h e f))"
proof -
  from assms(2) have np: "h \<noteq> ''__proto__''"
    by (auto simp: object_prototype_names_def)
  show ?thesis
    using assms np
    by (auto simp: counted_def json_set_def save_def Let_def entry_property_Nothing
        length_assign_entry distinct_assign_entry split: option.splits)
qed

lemma counted_delete:
  assumes "counted f" and "h \<notin> set object_prototype_names"
  shows "counted (snd (json_delete h f))"
  using assms
  by (auto simp: counted_def json_delete_def save_def entry_property_Nothing distinct_delete
      length_delete_present split: option.splits)

lemma counted_clear:
  assumes "counted f"
  shows "counted (snd (json_clear opt now f))"
proof (cases "load f")
  case None
  with assms show ?thesis by (simp add: counted_def)
next
  case (Some d)
  with assms have dist: "distinct (map fst (entries d))"
    and cnt: "totalEntries (stats d) = int (length (entries d))"
    by (simp_all add: counted_def)
  have len: "int (length (filter (\<lambda>p. \<not> P p) (entries d)))
      = int (length (entries d)) - int (length (filter P (entries d)))" for P
    using sum_length_filter_compl [of P "entries d"] by simp
  show ?thesis
    using Some dist cnt
    by (simp add: counted_def json_clear_def  save_def Let_def empty_stats_def
        clear_loop_distinct [OF dist] len distinct_map_filter)
qed

lemma counted_import:
  assumes "counted f"
  shows "counted (apply_mutation (Op_import x s) f)"
proof (cases "load f")
  case None
  with assms show ?thesis by (simp add: counted_def)
next
  case (Some d)
  with assms have dist: "distinct (map fst (entries d))" by (simp add: counted_def)
  show ?thesis
  proof (cases x)
    case None
    with \<open>load f = Some d\<close> assms show ?thesis by (simp add: importData_def)
  next
    case (Some y)
    obtain ents n where loop: "import_loop s (case imp_entries y of None \<Rightarrow> [] | Some es \<Rightarrow> es)
        (entries d, 0) = (ents, n)"
      by (cases "import_loop s (case imp_entries y of None \<Rightarrow> [] | Some es \<Rightarrow> es) (entries d, 0)")
    from import_loop_distinct [OF dist, of s _ 0] loop have "distinct (map fst ents)"
      by (metis fst_conv)
    with Some \<open>load f = Some d\<close> loop show ?thesis
      by (simp add: importData_def  save_def counted_def)
  qed
qed

lemma counted_mutation: "counted f \<Longrightarrow> plain_mutation m \<Longrightarrow> counted (apply_mutation m f)"
  by (cases m) (simp_all add: counted_set counted_delete counted_clear counted_import del: apply_mutation.simps(4))

lemma counted_run:
  "counted f \<Longrightarrow> \<forall>m \<in> set ms. plain_mutation m \<Longrightarrow> counted (run_mutations ms f)"
  unfolding run_mutations_def
  by (induction ms arbitrary: f) (simp_all add: counted_mutation)

text \<open>As long as no call of \<open>set\<close> or \<open>delete\<close> has a name of \<open>Object.prototype\<close> as its
  key: on a store that \<open>init\<close> has just created, after any sequence of calls of \<open>set\<close>,
  \<open>delete\<close>, \<open>clear\<close> and \<open>importData\<close> (with any argument and strategy; a call that throws
  writes nothing), the document still loads, the keys of its entries are distinct and
  \<open>stats.totalEntries\<close> is their number.\<close>

lemma totalEntries_counts_plain_keys:
  assumes "\<forall>m \<in> set ms. plain_mutation m"
  shows "\<exists>d. run_mutations ms (json_init now Missing) = Document d
     \<and> distinct (map fst (entries d))
     \<and> totalEntries (stats d) = int (length (entries d))"
proof -
  have "counted (json_init now Missing)"
    by (simp add: counted_def json_init_def save_def empty_stats_def)
  then have "counted (run_mutations ms (json_init now Missing))"
    using assms by (rule counted_run)
  then show ?thesis
    by (auto simp: counted_def split: option.splits)
qed

text \<open>
  Claim C10. On a store that \<open>init\<close> has just created, after every sequence of calls of
  \<open>set\<close>, \<open>delete\<close>, \<open>clear\<close> and \<open>importData\<close>, \<open>stats.totalEntries\<close> is to be the number
  of keys of the entries. The code after the single call \<open>delete('constructor')\<close>: the store
  has no entry and \<open>totalEntries\<close> is \<open>-1\<close>; and after the single call
  \<open>set('constructor', entry)\<close>: the store has one entry and \<open>totalEntries\<close> is 0. The tests
  \<open>data.entries[hash]\<close> of \<open>delete\<close> and \<open>!data.entries[hash]\<close> of \<open>set\<close> read the function
  that the empty object inherits from \<open>Object.prototype\<close>.
\<close>

theorem totalEntries_inherited_key:
  "run_mutations [Op_delete ''constructor''] (json_init 0 Missing)
     = Document \<lparr>entries = [],
                 stats = \<lparr>totalEntries = - 1, totalHits = 0, totalSaved = 0, costSaved = []\<rparr>,
                 meta = \<lparr>backend = ''json'', meta_created = 0\<rparr>\<rparr>
   \<and> run_mutations [Op_set ''constructor'' (sample_entry ''test prompt'' ''test response'')]
        (json_init 0 Missing)
     = Document \<lparr>entries = [(''constructor'', sample_entry ''test prompt'' ''test response'')],
                 stats = \<lparr>totalEntries = 0, totalHits = 0, totalSaved = 0, costSaved = []\<rparr>,
                 meta = \<lparr>backend = ''json'', meta_created = 0\<rparr>\<rparr>"
  by (simp add: run_mutations_def json_delete_def json_set_def json_init_def save_def
      empty_stats_def BACKENDS_JSON_def entry_property_def assign_entry_def
      object_prototype_names_def is_array_index_def is_digit_def Let_def)

section \<open>Properties of the cache facade\<close>

lemma getStorage_json:
  "dir_exists c \<Longrightarrow> \<not> cache_db c \<Longrightarrow> getStorage c = Some (Inr JSONStorage)"
  by (simp add: getStorage_def detectBackend_def createStorage_def BACKENDS_JSON_def
      BACKENDS_SQLITE_def BACKENDS_REDIS_def)

lemma getStorage_cases:
  "getStorage c = None \<or> getStorage c = Some (Inr JSONStorage) \<or> getStorage c = Some (Inr SQLiteStorage)"
  by (simp add: getStorage_def detectBackend_def createStorage_def BACKENDS_JSON_def
      BACKENDS_SQLITE_def BACKENDS_REDIS_def)

lemma limit_message: "show_nat 50 = ''50''"
  by (simp add: show_nat.simps)

lemma cache_set_limit:
  assumes "getStorage c = Some (Inr JSONStorage)" and "load (index_json c) = Some d"
    and "totalEntries (stats d) \<ge> 50"
  shows "cache_set sha False now p r m opts c
           = Inr (Limit_exceeded ''FREE version limited to 50 cache entries'', c)"
  using assms
  by (simp add: cache_set_def storage_getStats_def json_getStats_def canAddEntry_def
      limit_message maxEntries_def)

lemma cache_set_stores:
  assumes "getStorage c = Some (Inr JSONStorage)" and "load (index_json c) = Some d"
    and "pro \<or> (totalEntries (stats d) < 50 \<and> int (length r) \<le> 10240)"
    and "pro \<longrightarrow> opt_ttl opts = None"
  shows "cache_set sha pro now p r m opts c
           = Inr (Stored (hashPrompt sha p m) (map_of (entries d) (hashPrompt sha p m) = None)
                    (token_count opts r),
                  c\<lparr>index_json := snd (json_set (hashPrompt sha p m)
                       \<lparr>prompt = p, response = r, model = m, created = Some now, hits = 0,
                        tokens = token_count opts r, expires = None,
                        tags = (if pro then opt_tags opts else None)\<rparr> (index_json c))\<rparr>)"
proof -
  have chk: "canAddEntry pro (totalEntries (stats d)) = Allowed"
    "checkResponseSize pro (int (length r)) = Allowed"
    using assms(3) by (auto simp: canAddEntry_def checkResponseSize_def maxEntries_def maxResponseSize_def)
  have ttl: "(case opt_ttl opts of None \<Rightarrow> None | Some ttl \<Rightarrow> if ttl \<noteq> [] \<and> pro then parseTTL ttl else None) = None"
    using assms(4) by (cases "opt_ttl opts") auto
  have new: "(entry_property (entries d) (hashPrompt sha p m) = Nothing)
      = (map_of (entries d) (hashPrompt sha p m) = None)"
    by (simp add: entry_property_Nothing digest_plain [OF hashPrompt_length])
  show ?thesis
    using assms(1,2) chk
    by (simp add: cache_set_def storage_getStats_def json_getStats_def storage_set_def json_set_def
        save_def ttl new Let_def)
qed

lemma cache_get_hit:
  assumes "getStorage c = Some (Inr JSONStorage)" and "load (index_json c) = Some d"
    and "map_of (entries d) (hashPrompt sha p m) = Some e"
    and "\<not> date_less (expires e) (Some now)"
  shows "cache_get sha now p m c
           = Inr (Some \<lparr>res_response = response e, res_model = model e, res_hits = hits e + 1,
                         res_created = created e, res_tokens = tokens e\<rparr>,
                  c\<lparr>index_json := Document (d\<lparr>entries := AList.update (hashPrompt sha p m)
                                                   (e\<lparr>hits := hits e + 1\<rparr>) (entries d),
                                      stats := (stats d)\<lparr>totalHits := totalHits (stats d) + 1,
                                                 totalSaved := totalSaved (stats d) + int (length (response e))\<rparr>\<rparr>)\<rparr>)"
  using assms
  by (simp add: cache_get_def storage_get_def json_get_def storage_set_def json_set_def
      storage_getStats_def json_getStats_def storage_updateStats_def json_updateStats_def
      assign_stats_def save_def entry_property_def assign_entry_def Let_def)

lemma cache_get_Some:
  assumes "cache_get sha now p m c = Inr (Some res, c')"
  shows "\<exists>d e. getStorage c = Some (Inr JSONStorage) \<and> load (index_json c) = Some d
           \<and> map_of (entries d) (hashPrompt sha p m) = Some e
           \<and> \<not> date_less (expires e) (Some now)"
proof -
  from getStorage_cases [of c] assms have st: "getStorage c = Some (Inr JSONStorage)"
    by (auto simp: cache_get_def storage_get_def)
  from assms st obtain e where e: "storage_get JSONStorage (hashPrompt sha p m) c = Found e"
    by (cases "storage_get JSONStorage (hashPrompt sha p m) c") (auto simp: cache_get_def)
  then obtain d where d: "load (index_json c) = Some d" "map_of (entries d) (hashPrompt sha p m) = Some e"
    by (auto simp: storage_get_def json_get_def entry_property_Found split: option.splits)
  from assms st e have "\<not> (expires e \<noteq> None \<and> date_less (expires e) (Some now))"
    by (auto simp: cache_get_def Let_def split: if_splits)
  then have "\<not> date_less (expires e) (Some now)"
    by (auto simp: date_less_def)
  with st d show ?thesis by blast
qed

subsection \<open>Facts about the example caches\<close>

lemma hash_example: "hashPrompt constant_digest p m = ''0123456789ab''"
  by (simp add: hashPrompt_def hex_digest_def constant_digest_def take_map upt_rec)

lemma numbered_absent: "map_of (numbered_entries n) ''0123456789ab'' = None"
  by (auto simp: numbered_entries_def map_of_eq_None_iff)

text \<open>
  Claim C4. In the FREE tier (\<open>isPro()\<close> false), on an initialized cache: when
  \<open>stats.totalEntries\<close> is 50, \<open>set\<close> returns the limit result
  (\<open>success: false, limitExceeded: true\<close>) and the cache directory is unchanged; when it is
  49, a \<open>set\<close> of a new (prompt, model) pair whose response has at most 10240 bytes
  succeeds as a new entry, stores the entry and brings \<open>totalEntries\<close> to 50.
\<close>

theorem free_tier_entry_limit:
  assumes "dir_exists c" and "\<not> cache_db c" and "load (index_json c) = Some d"
  shows "(totalEntries (stats d) = 50 \<longrightarrow>
            cache_set sha False now p r m opts c
              = Inr (Limit_exceeded ''FREE version limited to 50 cache entries'', c))
       \<and> (totalEntries (stats d) = 49 \<and> int (length r) \<le> 10240
            \<and> map_of (entries d) (hashPrompt sha p m) = None \<longrightarrow>
            (\<exists>d'. cache_set sha False now p r m opts c
                     = Inr (Stored (hashPrompt sha p m) True (token_count opts r),
                            c\<lparr>index_json := Document d'\<rparr>)
                 \<and> map_of (entries d') (hashPrompt sha p m)
                     = Some \<lparr>prompt = p, response = r, model = m, created = Some now, hits = 0,
                             tokens = token_count opts r, expires = None, tags = None\<rparr>
                 \<and> totalEntries (stats d') = 50))"
proof -
  note st = getStorage_json [OF assms(1,2)]
  have full: "cache_set sha False now p r m opts c
              = Inr (Limit_exceeded ''FREE version limited to 50 cache entries'', c)"
    if "totalEntries (stats d) = 50"
    using cache_set_limit [OF st assms(3)] that by simp
  have room: "\<exists>d'. cache_set sha False now p r m opts c
                     = Inr (Stored (hashPrompt sha p m) True (token_count opts r),
                            c\<lparr>index_json := Document d'\<rparr>)
                 \<and> map_of (entries d') (hashPrompt sha p m)
                     = Some \<lparr>prompt = p, response = r, model = m, created = Some now, hits = 0,
                             tokens = token_count opts r, expires = None, tags = None\<rparr>
                 \<and> totalEntries (stats d') = 50"
    if "totalEntries (stats d) = 49" "int (length r) \<le> 10240"
      "map_of (entries d) (hashPrompt sha p m) = None"
    using cache_set_stores [OF st assms(3), of False r opts sha now p m] that assms(3)
      digest_plain [OF hashPrompt_length, of sha p m]
    by (auto simp: json_set_def save_def Let_def entry_property_Nothing
        map_of_assign_digest [OF hashPrompt_length])
  from full room show ?thesis by blast
qed

theorem free_tier_entry_limit_witness:
  "cache_set constant_digest False 1000 ''hello'' ''world!'' ''default'' no_options (store_with 50)
     = Inr (Limit_exceeded ''FREE version limited to 50 cache entries'', store_with 50)
   \<and> (\<exists>d'. cache_set constant_digest False 1000 ''hello'' ''world!'' ''default'' no_options (store_with 49)
          = Inr (Stored ''0123456789ab'' True 2, (store_with 49)\<lparr>index_json := Document d'\<rparr>)
        \<and> totalEntries (stats d') = 50)"
proof -
  have a: "dir_exists (store_with n)" "\<not> cache_db (store_with n)"
    "load (index_json (store_with n)) = Some (store_data n)" for n
    by (simp_all add: store_with_def)
  have t: "totalEntries (stats (store_data n)) = int n" for n
    by (simp add: store_data_def)
  have k: "map_of (entries (store_data n)) ''0123456789ab'' = None" for n
    by (simp add: store_data_def numbered_absent)
  have tok: "token_count no_options ''world!'' = 2"
    by (simp add: token_count_def no_options_def ceil_quarter_def)
  from free_tier_entry_limit [OF a [of 50], of constant_digest 1000 "''hello''" "''world!''" "''default''" no_options]
    t [of 50]
  have full: "cache_set constant_digest False 1000 ''hello'' ''world!'' ''default'' no_options (store_with 50)
     = Inr (Limit_exceeded ''FREE version limited to 50 cache entries'', store_with 50)"
    by simp
  from free_tier_entry_limit [OF a [of 49], of constant_digest 1000 "''hello''" "''world!''" "''default''" no_options]
    t [of 49] k [of 49]
  have room: "\<exists>d'. cache_set constant_digest False 1000 ''hello'' ''world!'' ''default'' no_options (store_with 49)
          = Inr (Stored ''0123456789ab'' True 2, (store_with 49)\<lparr>index_json := Document d'\<rparr>)
        \<and> totalEntries (stats d') = 50"
    by (auto simp: hash_example tok)
  from full room show ?thesis by (rule conjI)
qed

text \<open>
  Claim C1. On an initialized cache, within the free-tier limits (fewer than 50 entries and
  a response of at most 10240 bytes, or a PRO license) and with no time-to-live in effect
  (it needs a PRO license), \<open>set(prompt, response, model)\<close> succeeds and a following
  \<open>get(prompt, model)\<close>, at any later time, returns that response with \<open>hits = 1\<close>, the
  stored entry having the response and \<open>hits = 1\<close>. And on any cache, every \<open>get\<close> that
  returns a result has found an entry under the hash, stores it again with \<open>hits\<close>
  increased by exactly 1, and returns its response and the new \<open>hits\<close>.
\<close>

theorem set_then_get:
  assumes "dir_exists c" and "\<not> cache_db c" and "load (index_json c) = Some d"
    and "pro \<or> (totalEntries (stats d) < 50 \<and> int (length r) \<le> 10240)"
    and "pro \<longrightarrow> opt_ttl opts = None"
  shows "(\<exists>isNew c1 c2.
            cache_set sha pro now p r m opts c
              = Inr (Stored (hashPrompt sha p m) isNew (token_count opts r), c1)
          \<and> cache_get sha now' p m c1
              = Inr (Some \<lparr>res_response = r, res_model = m, res_hits = 1, res_created = Some now,
                            res_tokens = token_count opts r\<rparr>, c2)
          \<and> (\<exists>e. json_get (hashPrompt sha p m) (index_json c2) = Found e
                 \<and> response e = r \<and> hits e = 1))
       \<and> (\<forall>c0 t res c'. cache_get sha t p m c0 = Inr (Some res, c') \<longrightarrow>
            (\<exists>e. json_get (hashPrompt sha p m) (index_json c0) = Found e
               \<and> json_get (hashPrompt sha p m) (index_json c') = Found (e\<lparr>hits := hits e + 1\<rparr>)
               \<and> res_hits res = hits e + 1 \<and> res_response res = response e))"
proof -
  let ?h = "hashPrompt sha p m"
  let ?e = "\<lparr>prompt = p, response = r, model = m, created = Some now, hits = 0,
             tokens = token_count opts r, expires = None,
             tags = (if pro then opt_tags opts else None)\<rparr>"
  note st = getStorage_json [OF assms(1,2)]
  obtain d1 where d1: "snd (json_set ?h ?e (index_json c)) = Document d1"
    "map_of (entries d1) ?h = Some ?e"
    using assms(3)
    by (auto simp: json_set_def save_def Let_def map_of_assign_digest [OF hashPrompt_length])
  let ?c1 = "c\<lparr>index_json := Document d1\<rparr>"
  have set: "cache_set sha pro now p r m opts c
      = Inr (Stored ?h (map_of (entries d) ?h = None) (token_count opts r), ?c1)"
    using cache_set_stores [OF st assms(3,4,5), of sha now p m] d1(1) by simp
  have st1: "getStorage ?c1 = Some (Inr JSONStorage)"
    using assms(1,2) by (intro getStorage_json) simp_all
  have l1: "load (index_json ?c1) = Some d1"
    by simp
  have ne: "\<not> date_less (expires ?e) (Some now')"
    by (simp add: date_less_def)
  note get = cache_get_hit [OF st1 l1 d1(2) ne]
  have first: "\<exists>isNew c1 c2.
            cache_set sha pro now p r m opts c
              = Inr (Stored ?h isNew (token_count opts r), c1)
          \<and> cache_get sha now' p m c1
              = Inr (Some \<lparr>res_response = r, res_model = m, res_hits = 1, res_created = Some now,
                            res_tokens = token_count opts r\<rparr>, c2)
          \<and> (\<exists>e. json_get ?h (index_json c2) = Found e \<and> response e = r \<and> hits e = 1)"
    using set get by (simp add: json_get_def entry_property_def update_conv')
  have each: "\<exists>e. json_get ?h (index_json c0) = Found e
               \<and> json_get ?h (index_json c') = Found (e\<lparr>hits := hits e + 1\<rparr>)
               \<and> res_hits res = hits e + 1 \<and> res_response res = response e"
    if g: "cache_get sha t p m c0 = Inr (Some res, c')" for c0 t res c'
  proof -
    from cache_get_Some [OF g] obtain d0 e where
      a: "getStorage c0 = Some (Inr JSONStorage)" "load (index_json c0) = Some d0"
         "map_of (entries d0) ?h = Some e" "\<not> date_less (expires e) (Some t)"
      by blast
    from cache_get_hit [OF a] g a(2,3) show ?thesis
      by (auto simp: json_get_def entry_property_def update_conv')
  qed
  from first each show ?thesis by blast
qed

theorem set_then_get_witness:
  "(\<exists>isNew c1 c2.
      cache_set constant_digest False 1000 ''hello'' ''world!'' ''default'' no_options (store_with 1)
        = Inr (Stored ''0123456789ab'' isNew 2, c1)
      \<and> cache_get constant_digest 2000 ''hello'' ''default'' c1
        = Inr (Some \<lparr>res_response = ''world!'', res_model = ''default'', res_hits = 1,
                      res_created = Some 1000, res_tokens = 2\<rparr>, c2)
      \<and> (\<exists>e. json_get ''0123456789ab'' (index_json c2) = Found e
             \<and> response e = ''world!'' \<and> hits e = 1))
   \<and> (\<exists>e res c'.
        cache_get constant_digest 2000 ''test prompt'' ''gpt-4'' used_dir = Inr (Some res, c')
      \<and> json_get ''0123456789ab'' (index_json used_dir) = Found e \<and> hits e = 1
      \<and> json_get ''0123456789ab'' (index_json c') = Found (e\<lparr>hits := 2\<rparr>)
      \<and> res_hits res = 2)"
proof -
  have a: "dir_exists (store_with 1)" "\<not> cache_db (store_with 1)"
    "load (index_json (store_with 1)) = Some (store_data 1)"
    by (simp_all add: store_with_def)
  have lim: "False \<or> (totalEntries (stats (store_data 1)) < 50
      \<and> int (length ''world!'') \<le> 10240)"
    by (simp add: store_data_def)
  have ttl: "False \<longrightarrow> opt_ttl no_options = None" by simp
  have tok: "token_count no_options ''world!'' = 2"
    by (simp add: token_count_def no_options_def ceil_quarter_def)
  note inst = set_then_get [OF a lim ttl, of constant_digest 1000 "''hello''" "''default''" 2000]
  from inst have first: "\<exists>isNew c1 c2.
      cache_set constant_digest False 1000 ''hello'' ''world!'' ''default'' no_options (store_with 1)
        = Inr (Stored ''0123456789ab'' isNew 2, c1)
      \<and> cache_get constant_digest 2000 ''hello'' ''default'' c1
        = Inr (Some \<lparr>res_response = ''world!'', res_model = ''default'', res_hits = 1,
                      res_created = Some 1000, res_tokens = 2\<rparr>, c2)
      \<and> (\<exists>e. json_get ''0123456789ab'' (index_json c2) = Found e
             \<and> response e = ''world!'' \<and> hits e = 1)"
    by (simp add: hash_example tok)
  have u: "getStorage used_dir = Some (Inr JSONStorage)"
    by (rule getStorage_json) (simp_all add: used_dir_def)
  have l: "load (index_json used_dir) = Some (used_data)"
    by (simp add: used_dir_def used_index_def)
  let ?e = "\<lparr>prompt = ''test prompt'', response = ''test response'', model = ''gpt-4'',
             created = Some 1000, hits = 1, tokens = 4, expires = None, tags = None\<rparr>"
  have m: "map_of (entries used_data) (hashPrompt constant_digest ''test prompt'' ''gpt-4'') = Some ?e"
    by (simp add: used_data_def hash_example)
  have x: "\<not> date_less (expires ?e) (Some 2000)"
    by (simp add: date_less_def)
  from cache_get_hit [OF u l m x] obtain res c' where
    g: "cache_get constant_digest 2000 ''test prompt'' ''gpt-4'' used_dir = Inr (Some res, c')"
    by blast
  from set_then_get [OF a lim ttl, of constant_digest 1000 "''test prompt''" "''gpt-4''" 2000]
  have "\<forall>c0 t res c'. cache_get constant_digest t ''test prompt'' ''gpt-4'' c0 = Inr (Some res, c') \<longrightarrow>
            (\<exists>e. json_get ''0123456789ab'' (index_json c0) = Found e
               \<and> json_get ''0123456789ab'' (index_json c') = Found (e\<lparr>hits := hits e + 1\<rparr>)
               \<and> res_hits res = hits e + 1 \<and> res_response res = response e)"
    by (simp add: hash_example)
  from this [rule_format, OF g] obtain e where
    e: "json_get ''0123456789ab'' (index_json used_dir) = Found e"
       "json_get ''0123456789ab'' (index_json c') = Found (e\<lparr>hits := hits e + 1\<rparr>)"
       "res_hits res = hits e + 1"
    by blast
  from e(1) have "hits e = 1"
    by (auto simp: json_get_def entry_property_def used_dir_def used_index_def used_data_def)
  with g e have second: "\<exists>e res c'.
        cache_get constant_digest 2000 ''test prompt'' ''gpt-4'' used_dir = Inr (Some res, c')
      \<and> json_get ''0123456789ab'' (index_json used_dir) = Found e \<and> hits e = 1
      \<and> json_get ''0123456789ab'' (index_json c') = Found (e\<lparr>hits := 2\<rparr>)
      \<and> res_hits res = 2"
    by auto
  from first second show ?thesis by (rule conjI)
qed

section \<open>Properties of cosineSimilarity\<close>

lemma js_set_of_props [simp]: "distinct (js_set_of xs)" "set (js_set_of xs) = set xs"
  by (simp_all add: js_set_of_def)






text \<open>
  Claim C9. For sparse vectors \<open>v1\<close> and \<open>v2\<close> with non-negative entries,
  \<open>cosineSimilarity(v1, v2)\<close> is to return exactly 0 whenever the L2 norm of either vector is
  0, and never \<open>NaN\<close>. The code at \<open>cosineSimilarity({constructor: 1}, {})\<close>: the second
  vector is empty, so its norm is 0, and the result is \<open>NaN\<close>. The loop reads
  \<open>v2['constructor'] || 0\<close>, the empty object answers with the function it inherits from
  \<open>Object.prototype\<close>, and the function makes the products \<open>NaN\<close>, which the guard
  \<open>mag1 === 0 || mag2 === 0\<close> lets through.
\<close>

theorem cosineSimilarity_inherited_key:
  "l2_norm [] = 0
   \<and> cosineSimilarity (numbers [(''constructor'', 1)]) (numbers []) = NaN"
  by (simp add: l2_norm_def cosineSimilarity_def numbers_def js_set_of_def value_or_zero_def
      get_property_def object_prototype_names_def Let_def)

section \<open>Properties of findSimilar\<close>

subsection \<open>The numbers of the vectors\<close>


















subsection \<open>Scoring, sorting and truncation\<close>











subsection \<open>An example: two similarities that round alike\<close>

lemmas token_defs = tokenize_def toLowerCase_def replace_non_word_def is_word_char_def is_js_space_def

lemmas object_defs = get_property_def set_property_def object_prototype_names_def numbers_def

lemma tokenize_cat: "tokenize ''cat'' = [''cat'']"
  by (simp add: token_defs)

lemma tokenize_dog: "tokenize ''dog'' = [''dog'']" "tokenize ''dog!'' = [''dog'']"
  by (simp_all add: token_defs)





















text \<open>The same inherited property inside \<open>findSimilar\<close>: for the query
  \<open>constructor cat\<close> the similarity of a stored prompt \<open>cat\<close> is \<open>NaN\<close>, which no
  threshold admits.\<close>

lemma tokenize_constructor: "tokenize ''constructor cat'' = [''constructor'', ''cat'']"
  by (simp add: token_defs)

lemma constructor_query:
  "raw_similarity ''constructor cat''
     [(''aaaaaaaaaaaa'', pet_entry ''cat''), (''bbbbbbbbbbbb'', pet_entry ''dog'')] (pet_entry ''cat'') = NaN"
  by (simp add: raw_similarity_def idf_of_def pet_entry_def tokenize_cat tokenize_dog
      tokenize_constructor inverseDocumentFrequency_def termFrequency_def tfidfVector_def
      cosineSimilarity_def value_or_zero_def js_set_of_def object_defs Let_def)

end
